theory Spec2Isabelle
  imports Main "HOL-Library.Word"
begin

unbundle bit_operations_syntax

section \<open>JavaScript strings\<close>

text \<open>
  A string is a list of code units. The model covers the code units below 256 (ASCII and
  Latin-1), which is what \<^typ>\<open>char\<close> holds; every string the classifier accepts is ASCII.
\<close>

definition whitespace :: "char list" where
  "whitespace = [CHR 0x09, CHR 0x0A, CHR 0x0B, CHR 0x0C, CHR 0x0D, CHR 0x20, CHR 0xA0]"

definition is_ws :: "char \<Rightarrow> bool" where
  "is_ws c = (c \<in> set whitespace)"

text \<open>\<^verbatim>\<open>String.prototype.trim\<close>: white space and line terminators go from both ends.\<close>

definition trim :: "string \<Rightarrow> string" where
  "trim s = rev (dropWhile is_ws (rev (dropWhile is_ws s)))"

definition upper_chars :: "char list" where
  "upper_chars = ''ABCDEFGHIJKLMNOPQRSTUVWXYZ'' @
     [CHR 0xC0, CHR 0xC1, CHR 0xC2, CHR 0xC3, CHR 0xC4, CHR 0xC5, CHR 0xC6, CHR 0xC7,
      CHR 0xC8, CHR 0xC9, CHR 0xCA, CHR 0xCB, CHR 0xCC, CHR 0xCD, CHR 0xCE, CHR 0xCF,
      CHR 0xD0, CHR 0xD1, CHR 0xD2, CHR 0xD3, CHR 0xD4, CHR 0xD5, CHR 0xD6,
      CHR 0xD8, CHR 0xD9, CHR 0xDA, CHR 0xDB, CHR 0xDC, CHR 0xDD, CHR 0xDE]"

definition lower_chars :: "char list" where
  "lower_chars = ''abcdefghijklmnopqrstuvwxyz'' @
     [CHR 0xE0, CHR 0xE1, CHR 0xE2, CHR 0xE3, CHR 0xE4, CHR 0xE5, CHR 0xE6, CHR 0xE7,
      CHR 0xE8, CHR 0xE9, CHR 0xEA, CHR 0xEB, CHR 0xEC, CHR 0xED, CHR 0xEE, CHR 0xEF,
      CHR 0xF0, CHR 0xF1, CHR 0xF2, CHR 0xF3, CHR 0xF4, CHR 0xF5, CHR 0xF6,
      CHR 0xF8, CHR 0xF9, CHR 0xFA, CHR 0xFB, CHR 0xFC, CHR 0xFD, CHR 0xFE]"

definition lower_char :: "char \<Rightarrow> char" where
  "lower_char c = (case map_of (zip upper_chars lower_chars) c of Some l \<Rightarrow> l | None \<Rightarrow> c)"

text \<open>Upper-casing of a single code unit, for the letters whose capital is again one code
  unit below 256 (all that occur in a domain the client accepts).\<close>

definition upper_char :: "char \<Rightarrow> char" where
  "upper_char c = (case map_of (zip lower_chars upper_chars) c of Some u \<Rightarrow> u | None \<Rightarrow> c)"

definition toLowerCase :: "string \<Rightarrow> string" where
  "toLowerCase s = map lower_char s"

text \<open>\<^verbatim>\<open>s.lastIndexOf(c)\<close>: the index of the last occurrence of \<open>c\<close>, or \<open>-1\<close>.\<close>

fun lastIndexOf :: "string \<Rightarrow> char \<Rightarrow> int" where
  "lastIndexOf [] c = -1"
| "lastIndexOf (x # xs) c =
     (let r = lastIndexOf xs c in
      if r \<noteq> -1 then r + 1 else if x = c then 0 else -1)"

text \<open>\<^verbatim>\<open>s.substring(i)\<close>: a negative start counts as 0.\<close>

definition substring :: "string \<Rightarrow> int \<Rightarrow> string" where
  "substring s i = drop (nat i) s"

fun startsWith :: "string \<Rightarrow> string \<Rightarrow> bool" where
  "startsWith s [] = True"
| "startsWith [] (p # ps) = False"
| "startsWith (x # xs) (p # ps) = (x = p \<and> startsWith xs ps)"

definition endsWith :: "string \<Rightarrow> string \<Rightarrow> bool" where
  "endsWith s p = startsWith (rev s) (rev p)"

text \<open>\<^verbatim>\<open>s.includes(p)\<close>: \<open>p\<close> occurs in \<open>s\<close> as a contiguous substring.\<close>

fun includes_str :: "string \<Rightarrow> string \<Rightarrow> bool" where
  "includes_str [] p = (p = [])"
| "includes_str (x # xs) p = (startsWith (x # xs) p \<or> includes_str xs p)"

section \<open>Regular expressions\<close>

text \<open>
  The regular expressions of the source are transcribed constructor by constructor and
  run by a matcher built on derivatives. \<open>Upto n r\<close> is \<^verbatim>\<open>r{0,n}\<close>.
\<close>

datatype rexp =
    Zero
  | One
  | Chars "char list"
  | Alt rexp rexp
  | Seq rexp rexp
  | Star rexp
  | Upto nat rexp

definition Opt :: "rexp \<Rightarrow> rexp" where
  "Opt r = Alt One r"

definition Plus :: "rexp \<Rightarrow> rexp" where
  "Plus r = Seq r (Star r)"

fun nullable :: "rexp \<Rightarrow> bool" where
  "nullable Zero = False"
| "nullable One = True"
| "nullable (Chars cs) = False"
| "nullable (Alt r s) = (nullable r \<or> nullable s)"
| "nullable (Seq r s) = (nullable r \<and> nullable s)"
| "nullable (Star r) = True"
| "nullable (Upto n r) = True"

fun deriv :: "char \<Rightarrow> rexp \<Rightarrow> rexp" where
  "deriv c Zero = Zero"
| "deriv c One = Zero"
| "deriv c (Chars cs) = (if c \<in> set cs then One else Zero)"
| "deriv c (Alt r s) = Alt (deriv c r) (deriv c s)"
| "deriv c (Seq r s) =
     (if nullable r then Alt (Seq (deriv c r) s) (deriv c s) else Seq (deriv c r) s)"
| "deriv c (Star r) = Seq (deriv c r) (Star r)"
| "deriv c (Upto n r) = (if n = 0 then Zero else Seq (deriv c r) (Upto (n - 1) r))"

text \<open>\<^verbatim>\<open>/^r$/.test(s)\<close>: the whole of \<open>s\<close> matches \<open>r\<close>.\<close>

definition test :: "rexp \<Rightarrow> string \<Rightarrow> bool" where
  "test r s = nullable (foldl (\<lambda>r c. deriv c r) r s)"

section \<open>The domain classifier (\<^verbatim>\<open>lib/emailUtils.ts\<close>)\<close>

definition PERSONAL_EMAIL_DOMAINS :: "string list" where
  "PERSONAL_EMAIL_DOMAINS =
    [
     ''gmail.com'', ''googlemail.com'', ''outlook.com'', ''hotmail.com'', ''live.com'',
     ''msn.com'', ''passport.com'', ''yahoo.com'', ''yahoo.co.uk'', ''yahoo.ca'',
     ''yahoo.com.au'', ''yahoo.co.in'', ''yahoo.fr'', ''yahoo.de'', ''yahoo.es'',
     ''yahoo.it'', ''yahoo.co.jp'', ''ymail.com'', ''rocketmail.com'', ''icloud.com'',
     ''me.com'', ''mac.com'', ''aol.com'', ''aim.com'', ''protonmail.com'', ''proton.me'',
     ''pm.me'', ''zoho.com'', ''mail.com'', ''gmx.com'', ''gmx.net'', ''gmx.de'',
     ''web.de'', ''inbox.com'', ''fastmail.com'', ''fastmail.fm'', ''tutanota.com'',
     ''tutanota.de'', ''yandex.com'', ''yandex.ru'', ''mail.ru'', ''rambler.ru'',
     ''comcast.net'', ''verizon.net'', ''att.net'', ''sbcglobal.net'', ''bellsouth.net'',
     ''cox.net'', ''charter.net'', ''earthlink.net'', ''juno.com'', ''netzero.net'',
     ''btinternet.com'', ''sky.com'', ''virginmedia.com'', ''ntlworld.com'',
     ''talktalk.net'', ''orange.fr'', ''wanadoo.fr'', ''free.fr'', ''t-online.de'',
     ''arcor.de'', ''tempmail.com'', ''guerrillamail.com'', ''mailinator.com'',
     ''10minutemail.com'', ''throwaway.email'', ''sharklasers.com'', ''trashmail.com'']"

definition az :: "char list" where
  "az = ''abcdefghijklmnopqrstuvwxyz''"

definition AZ :: "char list" where
  "AZ = ''ABCDEFGHIJKLMNOPQRSTUVWXYZ''"

definition digits :: "char list" where
  "digits = ''0123456789''"

text \<open>
  \<^verbatim>\<open>/^[a-z0-9]([a-z0-9-]*[a-z0-9])?(\.[a-z0-9]([a-z0-9-]*[a-z0-9])?)+$/\<close>
\<close>

definition lc_label :: rexp where
  "lc_label = Seq (Chars (az @ digits))
                  (Opt (Seq (Star (Chars (az @ digits @ ''-''))) (Chars (az @ digits))))"

definition domainRegex :: rexp where
  "domainRegex = Seq lc_label (Plus (Seq (Chars ''.'') lc_label))"

definition extractDomain :: "string \<Rightarrow> string option" where
  "extractDomain email =
     (if email = [] then None
      else
        let trimmed = toLowerCase (trim email);
            atIndex = lastIndexOf trimmed CHR ''@''
        in if atIndex = -1 \<or> atIndex = 0 \<or> atIndex = int (length trimmed) - 1 then None
           else
             let domain = substring trimmed (atIndex + 1)
             in if \<not> includes_str domain ''.'' then None
                else if \<not> test domainRegex domain then None
                else Some domain)"

definition isBusinessEmail :: "string \<Rightarrow> bool" where
  "isBusinessEmail email =
     (case extractDomain email of
        None \<Rightarrow> False
      | Some domain \<Rightarrow>
          if domain = [] then False
          else if domain \<in> set PERSONAL_EMAIL_DOMAINS then False
          else if endsWith domain ''.edu'' \<or> endsWith domain ''.edu.au''
                  \<or> endsWith domain ''.ac.uk'' then False
          else if endsWith domain ''.gov'' \<or> endsWith domain ''.gov.uk''
                  \<or> endsWith domain ''.gov.au'' then False
          else True)"

text \<open>
  \<^verbatim>\<open>/^[a-zA-Z0-9.!#$%&'*+/=?^_`{|}~-]+@[a-zA-Z0-9](?:[a-zA-Z0-9-]{0,61}[a-zA-Z0-9])?\<close>
  \<^verbatim>\<open>(?:\.[a-zA-Z0-9](?:[a-zA-Z0-9-]{0,61}[a-zA-Z0-9])?)+$/\<close>
\<close>

definition alnum :: "char list" where
  "alnum = az @ AZ @ digits"

definition local_chars :: "char list" where
  "local_chars = alnum @ ''.!#$%&'' @ [CHR 0x27] @ ''*+/=?^_'' @ [CHR 0x60] @ ''{|}~-''"

definition label63 :: rexp where
  "label63 = Seq (Chars alnum) (Opt (Seq (Upto 61 (Chars (alnum @ ''-''))) (Chars alnum)))"

definition emailRegex :: rexp where
  "emailRegex =
     Seq (Plus (Chars local_chars))
         (Seq (Chars ''@'') (Seq label63 (Plus (Seq (Chars ''.'') label63))))"

definition isValidEmail :: "string \<Rightarrow> bool" where
  "isValidEmail email = (if email = [] then False else test emailRegex (trim email))"

definition normalizeEmail :: "string \<Rightarrow> string option" where
  "normalizeEmail email =
     (if \<not> isValidEmail email then None else Some (toLowerCase (trim email)))"

section \<open>The enrichment client (\<^verbatim>\<open>lib/clearbit.ts\<close>)\<close>

record CompanyData =
  cd_domain :: string
  companyName :: "string option"
  industry :: "string option"
  description :: "string option"
  employeeCount :: "string option"
  location :: "string option"
  website :: "string option"
  linkedinUrl :: "string option"
  twitterUrl :: "string option"
  technologies :: "string list"
  rawData :: "(string \<times> string) list option"

datatype ErrorCode = NOT_FOUND | API_ERROR | RATE_LIMITED | INVALID_DOMAIN

record EnrichmentError =
  code :: ErrorCode
  message :: string

datatype EnrichmentResult = Success CompanyData | Failure EnrichmentError

text \<open>
  The client as its constructor leaves it: \<open>useMock\<close> is the outcome of the API-key test.
  \<open>httpGet\<close> is the provider's side of \<^verbatim>\<open>callClearbitApi\<close>: for a domain, the company
  profile built from the response, or the error the status code or the failure of the
  request is mapped to. The method catches every error, so it always returns.
\<close>

record ClearbitClient =
  useMock :: bool
  httpGet :: "string \<Rightarrow> EnrichmentResult"

text \<open>\<^verbatim>\<open>transformClearbitResponse(domain, data)\<close> copies the domain from the argument.\<close>

definition callClearbitApi :: "ClearbitClient \<Rightarrow> string \<Rightarrow> EnrichmentResult" where
  "callClearbitApi client domain =
     (case httpGet client domain of
        Success data \<Rightarrow> Success (data\<lparr>cd_domain := domain\<rparr>)
      | Failure err \<Rightarrow> Failure err)"

text \<open>
  \<^verbatim>\<open>/^(?:[a-zA-Z0-9](?:[a-zA-Z0-9-]{0,61}[a-zA-Z0-9])?\.)+[a-zA-Z]{2,}$/\<close>
\<close>

definition clearbit_domainRegex :: rexp where
  "clearbit_domainRegex =
     Seq (Plus (Seq label63 (Chars ''.'')))
         (Seq (Chars (az @ AZ)) (Seq (Chars (az @ AZ)) (Star (Chars (az @ AZ)))))"

definition isValidDomain :: "string \<Rightarrow> bool" where
  "isValidDomain domain = test clearbit_domainRegex domain"

text \<open>
  \<^verbatim>\<open>simpleHash\<close>: \<^verbatim>\<open>hash = ((hash << 5) - hash) + char; hash = hash & hash\<close> over the
  code units, in 32-bit two's complement, then \<^verbatim>\<open>Math.abs\<close>.
\<close>

definition simpleHash :: "string \<Rightarrow> nat" where
  "simpleHash str =
     nat \<bar>sint (foldl (\<lambda>(hash :: 32 word) c. (push_bit 5 hash - hash) + of_nat (of_char c))
                     0 str)\<bar>"

text \<open>\<^verbatim>\<open>s.split(/[-_]/)\<close> and friends: the pieces between separators, never an empty list.\<close>

fun split_on :: "(char \<Rightarrow> bool) \<Rightarrow> string \<Rightarrow> string list" where
  "split_on p [] = [[]]"
| "split_on p (x # xs) =
     (let r = split_on p xs in
      if p x then [] # r else (x # hd r) # tl r)"

fun join_str :: "string \<Rightarrow> string list \<Rightarrow> string" where
  "join_str sep [] = []"
| "join_str sep [w] = w"
| "join_str sep (w # v # ws) = w @ sep @ join_str sep (v # ws)"

definition common_tlds :: "string list" where
  "common_tlds = [''com'', ''io'', ''co'', ''net'', ''org'', ''ai'', ''app'', ''dev'', ''tech'']"

text \<open>
  \<^verbatim>\<open>domain.replace(/\.(com|io|co|net|org|ai|app|dev|tech)$/i, '')\<close>: the alternatives hold
  no dot, so the match, if any, is the last dot with the whole label after it.
\<close>

definition strip_tld :: "string \<Rightarrow> string" where
  "strip_tld domain =
     (case find (\<lambda>t. endsWith (toLowerCase domain) (''.'' @ t)) common_tlds of
        Some t \<Rightarrow> take (length domain - (length t + 1)) domain
      | None \<Rightarrow> domain)"

definition capitalize :: "string \<Rightarrow> string" where
  "capitalize word = map upper_char (take 1 word) @ toLowerCase (drop 1 word)"

definition domainToCompanyName :: "string \<Rightarrow> string" where
  "domainToCompanyName domain =
     (let popped = last (split_on (\<lambda>c. c = CHR ''.'') (strip_tld domain));
          name = (if popped = [] then domain else popped)
      in join_str '' '' (map capitalize (split_on (\<lambda>c. c = CHR ''-'' \<or> c = CHR ''_'') name)))"

definition notFoundDomains :: "string list" where
  "notFoundDomains = [''unknown-domain.com'', ''fake-company.xyz'', ''test123.net'']"

definition industries :: "string list" where
  "industries = [''Software'', ''Technology'', ''Financial Services'', ''Healthcare'',
                 ''Marketing'', ''E-commerce'', ''Education'', ''Manufacturing'']"

definition employeeRanges :: "string list" where
  "employeeRanges = [''1-10'', ''11-50'', ''51-200'', ''201-500'', ''501-1000'', ''1001-5000'']"

definition techStacks :: "string list list" where
  "techStacks = [[''React'', ''Node.js'', ''PostgreSQL'', ''AWS''],
                 [''Vue.js'', ''Python'', ''MongoDB'', ''GCP''],
                 [''Angular'', ''Java'', ''MySQL'', ''Azure''],
                 [''Next.js'', ''TypeScript'', ''Prisma'', ''Vercel'']]"

definition cities :: "string list" where
  "cities = [''San Francisco, CA, USA'', ''New York, NY, USA'', ''Austin, TX, USA'',
             ''Seattle, WA, USA'', ''Boston, MA, USA'']"

definition getMockData :: "string \<Rightarrow> EnrichmentResult" where
  "getMockData domain =
     (if list_ex (\<lambda>d. includes_str (toLowerCase domain) d) notFoundDomains
      then Failure \<lparr>code = NOT_FOUND,
                    message = ''[MOCK] No company data found for domain: '' @ domain\<rparr>
      else
        let companyName = domainToCompanyName domain;
            hash = simpleHash domain;
            ind = industries ! (hash mod length industries);
            handle = hd (split_on (\<lambda>c. c = CHR ''.'') domain)
        in Success
             \<lparr>cd_domain = domain,
              companyName = Some companyName,
              industry = Some ind,
              description = Some (companyName
                 @ '' is a leading provider of innovative solutions in the ''
                 @ toLowerCase ind
                 @ '' space. They help businesses achieve their goals through cutting-edge technology and exceptional service.''),
              employeeCount = Some (employeeRanges ! (hash mod length employeeRanges)),
              location = Some (cities ! (hash mod length cities)),
              website = Some (''https://'' @ domain),
              linkedinUrl = Some (''https://linkedin.com/company/'' @ handle),
              twitterUrl = Some (''https://twitter.com/'' @ handle),
              technologies = techStacks ! (hash mod length techStacks),
              rawData = Some [(''_mock'', ''true''), (''_domain'', domain)]\<rparr>)"

section \<open>The world: tables, persistence outcomes, observable events\<close>

datatype ResearchStatus = R_pending | R_processing | R_complete | R_failed | R_na

datatype EmailStatus =
  draft | queued | sent | delivered | opened | clicked | bounced | failed

record Contact =
  c_id :: string
  c_userId :: string
  c_email :: string
  firstName :: "string option"
  lastName :: "string option"
  title :: "string option"
  company :: "string option"
  phone :: "string option"
  c_notes :: "string option"
  companyDomain :: "string option"
  researchStatus :: ResearchStatus

record Email =
  e_id :: string
  e_userId :: string
  e_contactId :: string
  subject :: string
  bodyText :: string
  bodyHtml :: "string option"
  e_status :: EmailStatus
  sentAt :: "nat option"
  sendgridMessageId :: "string option"
  openedAt :: "nat option"
  clickedAt :: "nat option"
  bouncedAt :: "nat option"

text \<open>
  What the outside can observe of a run: a call of \<^verbatim>\<open>clearbitClient.enrichCompany\<close>, an
  HTTP request to the provider, a \<^verbatim>\<open>setTimeout\<close> of so many milliseconds.
\<close>

datatype event = EnrichCompany string | HttpGet string | SetTimeout nat

text \<open>What a persistence call or the code throws; \<open>Error m\<close> is \<^verbatim>\<open>new Error(m)\<close>.\<close>

datatype exn = Error string | PrismaUnavailable | PrismaNotFound | PrismaUnique | TypeError

text \<open>\<^verbatim>\<open>error.message\<close>; the texts of the library's own errors are stand-ins.\<close>

fun message_of :: "exn \<Rightarrow> string" where
  "message_of (Error m) = m"
| "message_of PrismaUnavailable = ''database unavailable''"
| "message_of PrismaNotFound = ''record not found''"
| "message_of PrismaUnique = ''unique constraint failed''"
| "message_of TypeError = ''cannot read properties of null''"

text \<open>
  The three tables are lists of rows. \<open>outages\<close> schedules the persistence calls to come:
  each call takes the head, and throws when it is \<open>True\<close>; the empty schedule is a
  database that answers every call.
\<close>

record world =
  contacts :: "Contact list"
  emails :: "Email list"
  companyResearch :: "CompanyData list"
  outages :: "bool list"
  trace :: "event list"

definition emit :: "event \<Rightarrow> world \<Rightarrow> world" where
  "emit ev w = w\<lparr>trace := trace w @ [ev]\<rparr>"

definition db_call :: "world \<Rightarrow> (exn + unit) \<times> world" where
  "db_call w =
     (case outages w of
        [] \<Rightarrow> (Inr (), w)
      | b # bs \<Rightarrow> (if b then Inl PrismaUnavailable else Inr (), w\<lparr>outages := bs\<rparr>))"

text \<open>\<^verbatim>\<open>enrichCompany\<close>, with its two observable events.\<close>

definition enrichCompany :: "ClearbitClient \<Rightarrow> world \<Rightarrow> string \<Rightarrow> EnrichmentResult \<times> world" where
  "enrichCompany client w domain =
     (let w1 = emit (EnrichCompany domain) w in
      if \<not> isValidDomain domain
      then (Failure \<lparr>code = INVALID_DOMAIN,
                     message = ''Invalid domain format: '' @ domain\<rparr>, w1)
      else if useMock client then (getMockData domain, w1)
      else (callClearbitApi client domain, emit (HttpGet domain) w1))"

section \<open>Persistence calls\<close>

text \<open>
  Each call first takes its outcome from the schedule. \<^verbatim>\<open>update\<close> throws when no row has
  the id; \<^verbatim>\<open>create\<close> throws when the id or the pair (user, email) is taken;
  \<^verbatim>\<open>upsert\<close> replaces the row of the domain or appends a new one.
\<close>

definition prisma_companyResearch_findUnique ::
  "world \<Rightarrow> string \<Rightarrow> (exn + CompanyData option) \<times> world" where
  "prisma_companyResearch_findUnique w domain =
     (case db_call w of
        (Inl e, w1) \<Rightarrow> (Inl e, w1)
      | (Inr _, w1) \<Rightarrow> (Inr (find (\<lambda>r. cd_domain r = domain) (companyResearch w1)), w1))"

fun upsert_row :: "CompanyData \<Rightarrow> CompanyData list \<Rightarrow> CompanyData list" where
  "upsert_row d [] = [d]"
| "upsert_row d (r # rs) = (if cd_domain r = cd_domain d then d # rs else r # upsert_row d rs)"

definition prisma_companyResearch_upsert ::
  "world \<Rightarrow> CompanyData \<Rightarrow> (exn + CompanyData) \<times> world" where
  "prisma_companyResearch_upsert w d =
     (case db_call w of
        (Inl e, w1) \<Rightarrow> (Inl e, w1)
      | (Inr _, w1) \<Rightarrow>
          (Inr d, w1\<lparr>companyResearch := upsert_row d (companyResearch w1)\<rparr>))"

definition prisma_contact_update_status ::
  "world \<Rightarrow> string \<Rightarrow> ResearchStatus \<Rightarrow> (exn + unit) \<times> world" where
  "prisma_contact_update_status w contactId st =
     (case db_call w of
        (Inl e, w1) \<Rightarrow> (Inl e, w1)
      | (Inr _, w1) \<Rightarrow>
          (case find (\<lambda>c. c_id c = contactId) (contacts w1) of
             None \<Rightarrow> (Inl PrismaNotFound, w1)
           | Some _ \<Rightarrow>
               (Inr (), w1\<lparr>contacts :=
                  map (\<lambda>c. if c_id c = contactId then c\<lparr>researchStatus := st\<rparr> else c)
                      (contacts w1)\<rparr>)))"

definition prisma_contact_findUnique ::
  "world \<Rightarrow> string \<Rightarrow> string \<Rightarrow> (exn + Contact option) \<times> world" where
  "prisma_contact_findUnique w userId email =
     (case db_call w of
        (Inl e, w1) \<Rightarrow> (Inl e, w1)
      | (Inr _, w1) \<Rightarrow>
          (Inr (find (\<lambda>c. c_userId c = userId \<and> c_email c = email) (contacts w1)), w1))"

definition prisma_contact_create :: "world \<Rightarrow> Contact \<Rightarrow> (exn + Contact) \<times> world" where
  "prisma_contact_create w c =
     (case db_call w of
        (Inl e, w1) \<Rightarrow> (Inl e, w1)
      | (Inr _, w1) \<Rightarrow>
          (case find (\<lambda>x. c_id x = c_id c \<or> (c_userId x = c_userId c \<and> c_email x = c_email c))
                     (contacts w1) of
             Some _ \<Rightarrow> (Inl PrismaUnique, w1)
           | None \<Rightarrow> (Inr c, w1\<lparr>contacts := contacts w1 @ [c]\<rparr>)))"

text \<open>\<^verbatim>\<open>email.findFirst\<close> with \<^verbatim>\<open>include: { contact }\<close>: the row and the contact it points to.\<close>

definition prisma_email_findFirst ::
  "world \<Rightarrow> string \<Rightarrow> string \<Rightarrow> (exn + (Email \<times> Contact option) option) \<times> world" where
  "prisma_email_findFirst w emailId userId =
     (case db_call w of
        (Inl e, w1) \<Rightarrow> (Inl e, w1)
      | (Inr _, w1) \<Rightarrow>
          (case find (\<lambda>e. e_id e = emailId \<and> e_userId e = userId) (emails w1) of
             None \<Rightarrow> (Inr None, w1)
           | Some e \<Rightarrow>
               (Inr (Some (e, find (\<lambda>c. c_id c = e_contactId e) (contacts w1))), w1)))"

definition prisma_email_update ::
  "world \<Rightarrow> string \<Rightarrow> (Email \<Rightarrow> Email) \<Rightarrow> (exn + Email) \<times> world" where
  "prisma_email_update w emailId f =
     (case db_call w of
        (Inl e, w1) \<Rightarrow> (Inl e, w1)
      | (Inr _, w1) \<Rightarrow>
          (case find (\<lambda>e. e_id e = emailId) (emails w1) of
             None \<Rightarrow> (Inl PrismaNotFound, w1)
           | Some e \<Rightarrow>
               (Inr (f e), w1\<lparr>emails :=
                  map (\<lambda>x. if e_id x = emailId then f x else x) (emails w1)\<rparr>)))"

definition all_statuses :: "EmailStatus list" where
  "all_statuses = [draft, queued, sent, delivered, opened, clicked, bounced, failed]"

definition count_status :: "world \<Rightarrow> string \<Rightarrow> EmailStatus \<Rightarrow> nat" where
  "count_status w userId st =
     length (filter (\<lambda>e. e_userId e = userId \<and> e_status e = st) (emails w))"

text \<open>\<^verbatim>\<open>email.groupBy({ by: ['status'], where: { userId }, _count })\<close>: one group for each
  status the user has an email in.\<close>

definition prisma_email_groupBy ::
  "world \<Rightarrow> string \<Rightarrow> (exn + (EmailStatus \<times> nat) list) \<times> world" where
  "prisma_email_groupBy w userId =
     (case db_call w of
        (Inl e, w1) \<Rightarrow> (Inl e, w1)
      | (Inr _, w1) \<Rightarrow>
          (Inr (filter (\<lambda>g. 0 < snd g)
                  (map (\<lambda>st. (st, count_status w1 userId st)) all_statuses)), w1))"

section \<open>The research service (\<^verbatim>\<open>services/research.service.ts\<close>)\<close>

record ResearchResult =
  rr_success :: bool
  rr_domain :: string
  rr_status :: ResearchStatus
  rr_companyResearch :: "CompanyData option"
  rr_error :: "string option"

definition saveCompanyResearch :: "world \<Rightarrow> CompanyData \<Rightarrow> (exn + CompanyData) \<times> world" where
  "saveCompanyResearch w d = prisma_companyResearch_upsert w d"

definition researchCompany ::
  "ClearbitClient \<Rightarrow> world \<Rightarrow> string \<Rightarrow> (exn + ResearchResult) \<times> world" where
  "researchCompany client w domain =
     (let normalizedDomain = trim (toLowerCase domain) in
      case prisma_companyResearch_findUnique w normalizedDomain of
        (Inl e, w1) \<Rightarrow> (Inl e, w1)
      | (Inr (Some existingResearch), w1) \<Rightarrow>
          (Inr \<lparr>rr_success = True, rr_domain = normalizedDomain, rr_status = R_complete,
                rr_companyResearch = Some existingResearch, rr_error = None\<rparr>, w1)
      | (Inr None, w1) \<Rightarrow>
          (case enrichCompany client w1 normalizedDomain of
             (Failure err, w2) \<Rightarrow>
               (Inr \<lparr>rr_success = False, rr_domain = normalizedDomain, rr_status = R_failed,
                     rr_companyResearch = None, rr_error = Some (message err)\<rparr>, w2)
           | (Success companyData, w2) \<Rightarrow>
               (case saveCompanyResearch w2 companyData of
                  (Inl e, w3) \<Rightarrow> (Inl e, w3)
                | (Inr row, w3) \<Rightarrow>
                    (Inr \<lparr>rr_success = True, rr_domain = normalizedDomain,
                          rr_status = R_complete, rr_companyResearch = Some row,
                          rr_error = None\<rparr>, w3))))"

definition updateContactResearchStatus ::
  "world \<Rightarrow> string \<Rightarrow> ResearchStatus \<Rightarrow> (exn + unit) \<times> world" where
  "updateContactResearchStatus w contactId st = prisma_contact_update_status w contactId st"

text \<open>The body of the \<^verbatim>\<open>try\<close> block of \<^verbatim>\<open>researchContactCompany\<close>.\<close>

definition research_try ::
  "ClearbitClient \<Rightarrow> world \<Rightarrow> string \<Rightarrow> string \<Rightarrow> (exn + ResearchResult) \<times> world" where
  "research_try client w contactId domain =
     (case researchCompany client w domain of
        (Inl e, w1) \<Rightarrow> (Inl e, w1)
      | (Inr result, w1) \<Rightarrow>
          (let newStatus = (if rr_success result then R_complete else R_failed) in
           case updateContactResearchStatus w1 contactId newStatus of
             (Inl e, w2) \<Rightarrow> (Inl e, w2)
           | (Inr _, w2) \<Rightarrow> (Inr result, w2)))"

text \<open>
  The first status write stands before the \<^verbatim>\<open>try\<close>, and the write in the \<^verbatim>\<open>catch\<close>
  block is awaited bare: what either throws leaves the function.
\<close>

definition researchContactCompany ::
  "ClearbitClient \<Rightarrow> world \<Rightarrow> string \<Rightarrow> string \<Rightarrow> (exn + ResearchResult) \<times> world" where
  "researchContactCompany client w contactId domain =
     (case updateContactResearchStatus w contactId R_processing of
        (Inl e, w1) \<Rightarrow> (Inl e, w1)
      | (Inr _, w1) \<Rightarrow>
          (case research_try client w1 contactId domain of
             (Inr result, w2) \<Rightarrow> (Inr result, w2)
           | (Inl error, w2) \<Rightarrow>
               (case updateContactResearchStatus w2 contactId R_failed of
                  (Inl e, w3) \<Rightarrow> (Inl e, w3)
                | (Inr _, w3) \<Rightarrow>
                    (Inr \<lparr>rr_success = False, rr_domain = domain, rr_status = R_failed,
                          rr_companyResearch = None,
                          rr_error = Some (''Research failed: '' @ message_of error)\<rparr>, w3))))"

text \<open>
  \<^verbatim>\<open>researchContactCompany\<close> is an \<^verbatim>\<open>async\<close> function: between two of its \<^verbatim>\<open>await\<close>s
  other calls may run. Where a call stands: before the first status write, before the
  cache lookup, before the call of the client, before the upsert of the profile, before
  the last status write with the result in hand, in the \<^verbatim>\<open>catch\<close> block with the error in
  hand, or settled with a rejection or a result.
\<close>

datatype pc =
    Start
  | Lookup
  | Enrich
  | Save CompanyData
  | Finish ResearchResult
  | Catch exn
  | Done "exn + ResearchResult"

text \<open>One awaited action of the call for the entry (contact id, domain).\<close>

fun step_call :: "ClearbitClient \<Rightarrow> world \<Rightarrow> string \<times> string \<Rightarrow> pc \<Rightarrow> pc \<times> world" where
  "step_call client w entry Start =
     (case updateContactResearchStatus w (fst entry) R_processing of
        (Inl e, w1) \<Rightarrow> (Done (Inl e), w1)
      | (Inr _, w1) \<Rightarrow> (Lookup, w1))"
| "step_call client w entry Lookup =
     (case prisma_companyResearch_findUnique w (trim (toLowerCase (snd entry))) of
        (Inl e, w1) \<Rightarrow> (Catch e, w1)
      | (Inr (Some existingResearch), w1) \<Rightarrow>
          (Finish \<lparr>rr_success = True, rr_domain = trim (toLowerCase (snd entry)),
                   rr_status = R_complete, rr_companyResearch = Some existingResearch,
                   rr_error = None\<rparr>, w1)
      | (Inr None, w1) \<Rightarrow> (Enrich, w1))"
| "step_call client w entry Enrich =
     (case enrichCompany client w (trim (toLowerCase (snd entry))) of
        (Failure err, w1) \<Rightarrow>
          (Finish \<lparr>rr_success = False, rr_domain = trim (toLowerCase (snd entry)),
                   rr_status = R_failed, rr_companyResearch = None,
                   rr_error = Some (message err)\<rparr>, w1)
      | (Success companyData, w1) \<Rightarrow> (Save companyData, w1))"
| "step_call client w entry (Save companyData) =
     (case saveCompanyResearch w companyData of
        (Inl e, w1) \<Rightarrow> (Catch e, w1)
      | (Inr row, w1) \<Rightarrow>
          (Finish \<lparr>rr_success = True, rr_domain = trim (toLowerCase (snd entry)),
                   rr_status = R_complete, rr_companyResearch = Some row,
                   rr_error = None\<rparr>, w1))"
| "step_call client w entry (Finish result) =
     (case updateContactResearchStatus w (fst entry)
             (if rr_success result then R_complete else R_failed) of
        (Inl e, w1) \<Rightarrow> (Catch e, w1)
      | (Inr _, w1) \<Rightarrow> (Done (Inr result), w1))"
| "step_call client w entry (Catch error) =
     (case updateContactResearchStatus w (fst entry) R_failed of
        (Inl e, w1) \<Rightarrow> (Done (Inl e), w1)
      | (Inr _, w1) \<Rightarrow>
          (Done (Inr \<lparr>rr_success = False, rr_domain = snd entry, rr_status = R_failed,
                      rr_companyResearch = None,
                      rr_error = Some (''Research failed: '' @ message_of error)\<rparr>), w1))"
| "step_call client w entry (Done r) = (Done r, w)"

text \<open>\<open>n\<close> actions of a call, one after the other. A call takes six actions at most.\<close>

fun steps :: "ClearbitClient \<Rightarrow> nat \<Rightarrow> world \<Rightarrow> string \<times> string \<Rightarrow> pc \<Rightarrow> pc \<times> world" where
  "steps client 0 w entry p = (p, w)"
| "steps client (Suc n) w entry p =
     (case step_call client w entry p of (p', w') \<Rightarrow> steps client n w' entry p')"

fun pending :: "pc \<Rightarrow> bool" where
  "pending (Done r) = False"
| "pending p = True"

fun rejected :: "pc \<Rightarrow> bool" where
  "rejected (Done (Inl e)) = True"
| "rejected p = False"

text \<open>
  The calls of a window, each with its entry, in the order of the window. \<open>advance\<close> lets
  the pending calls that \<open>sel\<close> picks, counted from \<open>i\<close> in the order of the window, take
  one action each; it stops at the first rejection, which rejects the \<^verbatim>\<open>Promise.all\<close>.
\<close>

type_synonym call = "(string \<times> string) \<times> pc"

fun advance ::
  "(nat \<Rightarrow> bool) \<Rightarrow> ClearbitClient \<Rightarrow> world \<Rightarrow> nat \<Rightarrow> call list \<Rightarrow> call list \<times> world" where
  "advance sel client w i [] = ([], w)"
| "advance sel client w i (c # cs) =
     (if \<not> pending (snd c)
      then (case advance sel client w i cs of (cs', w') \<Rightarrow> (c # cs', w'))
      else if sel i
      then (case step_call client w (fst c) (snd c) of
              (p', w1) \<Rightarrow>
                if rejected p' then ((fst c, p') # cs, w1)
                else (case advance sel client w1 (Suc i) cs of
                        (cs', w2) \<Rightarrow> ((fst c, p') # cs', w2)))
      else (case advance sel client w (Suc i) cs of (cs', w') \<Rightarrow> (c # cs', w')))"

text \<open>
  The order in which the event loop resumes the calls is not the program's to choose. A
  schedule gives it: each number picks, among the calls still pending, the one that takes
  the next action. A window uses the schedule until all its calls are settled or one is
  rejected, and leaves the rest to the next window.
\<close>

fun scheduled ::
  "ClearbitClient \<Rightarrow> nat list \<Rightarrow> world \<Rightarrow> call list \<Rightarrow> call list \<times> world \<times> nat list" where
  "scheduled client [] w calls = (calls, w, [])"
| "scheduled client (k # ks) w calls =
     (if filter (\<lambda>c. pending (snd c)) calls = [] \<or> list_ex (\<lambda>c. rejected (snd c)) calls
      then (calls, w, k # ks)
      else (case advance (\<lambda>i. i = k mod length (filter (\<lambda>c. pending (snd c)) calls))
                   client w 0 calls of
              (calls', w') \<Rightarrow> scheduled client ks w' calls'))"

text \<open>
  When the schedule has run out, the pending calls are resumed in turn, one action each
  in a round. Six rounds settle every call.
\<close>

fun rounds :: "ClearbitClient \<Rightarrow> nat \<Rightarrow> world \<Rightarrow> call list \<Rightarrow> call list \<times> world" where
  "rounds client 0 w calls = (calls, w)"
| "rounds client (Suc n) w calls =
     (if list_ex (\<lambda>c. rejected (snd c)) calls then (calls, w)
      else (case advance (\<lambda>i. True) client w 0 calls of
              (calls', w') \<Rightarrow> rounds client n w' calls'))"

fun first_rejection :: "call list \<Rightarrow> exn option" where
  "first_rejection [] = None"
| "first_rejection (c # cs) =
     (case snd c of Done (Inl e) \<Rightarrow> Some e | _ \<Rightarrow> first_rejection cs)"

fun results_of :: "call list \<Rightarrow> ResearchResult list" where
  "results_of [] = []"
| "results_of (c # cs) =
     (case snd c of Done (Inr r) \<Rightarrow> r # results_of cs | _ \<Rightarrow> results_of cs)"

text \<open>
  \<^verbatim>\<open>Promise.all(batch.map(contact => researchContactCompany(...)))\<close>: all calls of the
  window are started, and take their actions interleaved as the schedule says. The
  promise is rejected with the first rejection, at the moment it occurs (the world is the
  one of that moment; the other calls are not followed further); otherwise it is
  fulfilled with the results in the order of the window.
\<close>

definition promise_all ::
  "ClearbitClient \<Rightarrow> nat list \<Rightarrow> world \<Rightarrow> (string \<times> string) list
     \<Rightarrow> (exn + ResearchResult list) \<times> world \<times> nat list" where
  "promise_all client sched w batch =
     (case scheduled client sched w (map (\<lambda>entry. (entry, Start)) batch) of
        (calls1, w1, rest) \<Rightarrow>
          (case rounds client 6 w1 calls1 of
             (calls2, w2) \<Rightarrow>
               (case first_rejection calls2 of
                  Some e \<Rightarrow> (Inl e, w2, rest)
                | None \<Rightarrow> (Inr (results_of calls2), w2, rest))))"

text \<open>\<^verbatim>\<open>Array.prototype.slice(start, end)\<close>, negative indices counting from the end.\<close>

definition slice :: "'a list \<Rightarrow> int \<Rightarrow> int \<Rightarrow> 'a list" where
  "slice xs start end =
     (let len = int (length xs);
          k = (if start < 0 then max (len + start) 0 else min start len);
          final = (if end < 0 then max (len + end) 0 else min end len)
      in take (nat (final - k)) (drop (nat k) xs))"

text \<open>
  The \<^verbatim>\<open>for\<close> loop of \<^verbatim>\<open>batchResearchContacts\<close>, for a limit that is a whole number.
  Nothing bounds the number of rounds, so the loop is a partial function: \<open>None\<close> is a
  run that never returns. The pause between two windows is the timer it sets, the event
  \<open>SetTimeout 1000\<close>.
\<close>

partial_function (option) batch_loop ::
  "ClearbitClient \<Rightarrow> (string \<times> string) list \<Rightarrow> int \<Rightarrow> int \<Rightarrow> ResearchResult list
     \<Rightarrow> nat list \<Rightarrow> world \<Rightarrow> ((exn + ResearchResult list) \<times> world) option"
where
  "batch_loop client cs concurrency i results sched w =
     (if i < int (length cs) then
        (case promise_all client sched w (slice cs i (i + concurrency)) of
           (Inl e, w1, rest) \<Rightarrow> Some (Inl e, w1)
         | (Inr batchResults, w1, rest) \<Rightarrow>
             batch_loop client cs concurrency (i + concurrency) (results @ batchResults) rest
               (if i + concurrency < int (length cs) then emit (SetTimeout 1000) w1 else w1))
      else Some (Inr results, w))"

definition batchResearchContacts ::
  "ClearbitClient \<Rightarrow> nat list \<Rightarrow> world \<Rightarrow> (string \<times> string) list \<Rightarrow> int
     \<Rightarrow> ((exn + ResearchResult list) \<times> world) option" where
  "batchResearchContacts client sched w cs concurrency =
     batch_loop client cs concurrency 0 [] sched w"

section \<open>The contacts service (\<^verbatim>\<open>services/contacts.service.ts\<close>)\<close>

record CreateContactInput =
  i_email :: string
  i_firstName :: "string option"
  i_lastName :: "string option"
  i_title :: "string option"
  i_company :: "string option"
  i_phone :: "string option"
  i_notes :: "string option"

text \<open>\<^verbatim>\<open>input.field?.trim() || null\<close>\<close>

definition trim_or_null :: "string option \<Rightarrow> string option" where
  "trim_or_null x =
     (case x of None \<Rightarrow> None | Some s \<Rightarrow> if trim s = [] then None else Some (trim s))"

text \<open>
  What \<^verbatim>\<open>createContact\<close> hands back: the stored contact, the flag it adds, and
  \<open>spawned\<close>, the call \<^verbatim>\<open>researchContactCompany(contact.id, domain)\<close> it starts without
  awaiting, if any.
\<close>

record Created =
  cr_contact :: Contact
  isBusinessContact :: bool
  spawned :: "(string \<times> string) option"

text \<open>\<open>newId\<close> is the id the database generates for the row.\<close>

definition createContact ::
  "world \<Rightarrow> string \<Rightarrow> string \<Rightarrow> CreateContactInput \<Rightarrow> (exn + Created) \<times> world" where
  "createContact w newId userId input =
     (case normalizeEmail (i_email input) of
        None \<Rightarrow> (Inl (Error ''Invalid email address''), w)
      | Some normalizedEmail \<Rightarrow>
          (case prisma_contact_findUnique w userId normalizedEmail of
             (Inl e, w1) \<Rightarrow> (Inl e, w1)
           | (Inr (Some existingContact), w1) \<Rightarrow>
               (Inl (Error ''Contact with this email already exists''), w1)
           | (Inr None, w1) \<Rightarrow>
               (let isBusiness = isBusinessEmail normalizedEmail;
                    domain = extractDomain normalizedEmail
                in case prisma_contact_create w1
                     \<lparr>c_id = newId, c_userId = userId, c_email = normalizedEmail,
                      firstName = trim_or_null (i_firstName input),
                      lastName = trim_or_null (i_lastName input),
                      title = trim_or_null (i_title input),
                      company = trim_or_null (i_company input),
                      phone = trim_or_null (i_phone input),
                      c_notes = trim_or_null (i_notes input),
                      companyDomain = (if isBusiness then domain else None),
                      researchStatus = (if isBusiness then R_pending else R_na)\<rparr> of
                     (Inl e, w2) \<Rightarrow> (Inl e, w2)
                   | (Inr c, w2) \<Rightarrow>
                       (Inr \<lparr>cr_contact = c, isBusinessContact = isBusiness,
                             spawned =
                               (case domain of
                                  None \<Rightarrow> None
                                | Some d \<Rightarrow>
                                    if isBusiness \<and> d \<noteq> [] then Some (c_id c, d) else None)\<rparr>,
                        w2))))"

text \<open>
  The spawned call with its \<^verbatim>\<open>.then(...).catch(...)\<close>: both handlers only log, so the
  chain settles whatever the call does, and leaves the world the call left.
\<close>

definition auto_research :: "ClearbitClient \<Rightarrow> world \<Rightarrow> (string \<times> string) option \<Rightarrow> world" where
  "auto_research client w task =
     (case task of
        None \<Rightarrow> w
      | Some (contactId, domain) \<Rightarrow> snd (researchContactCompany client w contactId domain))"

definition status_of :: "world \<Rightarrow> string \<Rightarrow> ResearchStatus option" where
  "status_of w contactId =
     map_option researchStatus (find (\<lambda>c. c_id c = contactId) (contacts w))"

section \<open>The email service (\<^verbatim>\<open>services/email.service.ts\<close>)\<close>

record SendEmailParams =
  p_to :: string
  p_toName :: "string option"
  p_subject :: string
  p_text :: string
  p_html :: "string option"

record SendEmailResult =
  sr_success :: bool
  sr_messageId :: "string option"
  sr_error :: "string option"
  sr_mockMode :: "bool option"

text \<open>
  The delivery side as the service sees it: whether a real key is configured, the id
  the mock makes up, what the provider answers (\<^verbatim>\<open>sendEmail\<close> catches what the provider
  throws), and the clock.
\<close>

record Delivery =
  sendGridConfigured :: bool
  mockMessageId :: string
  sgSend :: "SendEmailParams \<Rightarrow> SendEmailResult"
  now :: nat

definition sendEmail :: "Delivery \<Rightarrow> SendEmailParams \<Rightarrow> SendEmailResult" where
  "sendEmail dl params =
     (if \<not> sendGridConfigured dl
      then \<lparr>sr_success = True, sr_messageId = Some (mockMessageId dl), sr_error = None,
            sr_mockMode = Some True\<rparr>
      else sgSend dl params)"

record SentInfo =
  si_id :: string
  si_status :: EmailStatus
  si_sentAt :: "nat option"
  si_sendgridMessageId :: "string option"

record SendEmailResponse =
  res_success :: bool
  res_email :: "SentInfo option"
  res_error :: "string option"
  res_mockMode :: "bool option"

definition status_name :: "EmailStatus \<Rightarrow> string" where
  "status_name st =
     (case st of draft \<Rightarrow> ''draft'' | queued \<Rightarrow> ''queued'' | sent \<Rightarrow> ''sent''
      | delivered \<Rightarrow> ''delivered'' | opened \<Rightarrow> ''opened'' | clicked \<Rightarrow> ''clicked''
      | bounced \<Rightarrow> ''bounced'' | failed \<Rightarrow> ''failed'')"

definition refusal :: "string \<Rightarrow> SendEmailResponse" where
  "refusal msg = \<lparr>res_success = False, res_email = None, res_error = Some msg, res_mockMode = None\<rparr>"

text \<open>\<^verbatim>\<open>[firstName, lastName].filter(Boolean).join(' ') || undefined\<close>\<close>

definition recipientName :: "Contact \<Rightarrow> string option" where
  "recipientName c =
     (let parts = filter (\<lambda>x. x \<noteq> []) (map (\<lambda>x. case x of None \<Rightarrow> [] | Some s \<Rightarrow> s)
                                           [firstName c, lastName c]);
          joined = join_str '' '' parts
      in if joined = [] then None else Some joined)"

definition nonempty_or_null :: "string option \<Rightarrow> string option" where
  "nonempty_or_null x = (case x of None \<Rightarrow> None | Some s \<Rightarrow> if s = [] then None else Some s)"

text \<open>The body of the \<^verbatim>\<open>try\<close> block of \<^verbatim>\<open>sendSavedEmail\<close>.\<close>

definition send_try ::
  "Delivery \<Rightarrow> world \<Rightarrow> string \<Rightarrow> string \<Rightarrow> (exn + SendEmailResponse) \<times> world" where
  "send_try dl w emailId userId =
     (case prisma_email_findFirst w emailId userId of
        (Inl e, w1) \<Rightarrow> (Inl e, w1)
      | (Inr None, w1) \<Rightarrow> (Inr (refusal ''Email not found or access denied''), w1)
      | (Inr (Some (em, ct)), w1) \<Rightarrow>
          if e_status em = sent \<or> e_status em = delivered
          then (Inr (refusal ''Email has already been sent''), w1)
          else if e_status em \<noteq> draft \<and> e_status em \<noteq> queued \<and> e_status em \<noteq> failed
          then (Inr (refusal (''Cannot send email with status: '' @ status_name (e_status em))), w1)
          else
            (case ct of
               None \<Rightarrow> (Inl TypeError, w1)
             | Some c \<Rightarrow>
                 if c_email c = [] then (Inr (refusal ''Contact does not have an email address''), w1)
                 else
                   (case prisma_email_update w1 emailId (\<lambda>x. x\<lparr>e_status := queued\<rparr>) of
                      (Inl e, w2) \<Rightarrow> (Inl e, w2)
                    | (Inr _, w2) \<Rightarrow>
                        (let sendResult = sendEmail dl
                               \<lparr>p_to = c_email c, p_toName = recipientName c,
                                p_subject = subject em, p_text = bodyText em,
                                p_html = nonempty_or_null (bodyHtml em)\<rparr>
                         in if sr_success sendResult
                            then
                              (case prisma_email_update w2 emailId
                                      (\<lambda>x. x\<lparr>e_status := sent, sentAt := Some (now dl),
                                             sendgridMessageId :=
                                               nonempty_or_null (sr_messageId sendResult)\<rparr>) of
                                 (Inl e, w3) \<Rightarrow> (Inl e, w3)
                               | (Inr updatedEmail, w3) \<Rightarrow>
                                   (Inr \<lparr>res_success = True,
                                         res_email = Some \<lparr>si_id = e_id updatedEmail,
                                                       si_status = e_status updatedEmail,
                                                       si_sentAt = sentAt updatedEmail,
                                                       si_sendgridMessageId =
                                                         sendgridMessageId updatedEmail\<rparr>,
                                         res_error = None,
                                         res_mockMode = sr_mockMode sendResult\<rparr>, w3))
                            else
                              (case prisma_email_update w2 emailId (\<lambda>x. x\<lparr>e_status := failed\<rparr>) of
                                 (Inl e, w3) \<Rightarrow> (Inl e, w3)
                               | (Inr _, w3) \<Rightarrow>
                                   (Inr (refusal
                                      (case nonempty_or_null (sr_error sendResult) of
                                         Some m \<Rightarrow> m
                                       | None \<Rightarrow> ''Failed to send email'')), w3))))))"

text \<open>
  \<^verbatim>\<open>sendSavedEmail\<close>: the \<^verbatim>\<open>catch\<close> block tries to mark the email failed, ignores what
  that write throws, and answers with the message of the error.
\<close>

definition sendSavedEmail ::
  "Delivery \<Rightarrow> world \<Rightarrow> string \<Rightarrow> string \<Rightarrow> SendEmailResponse \<times> world" where
  "sendSavedEmail dl w emailId userId =
     (case send_try dl w emailId userId of
        (Inr response, w1) \<Rightarrow> (response, w1)
      | (Inl err, w1) \<Rightarrow>
          (case prisma_email_update w1 emailId (\<lambda>x. x\<lparr>e_status := failed\<rparr>) of
             (_, w2) \<Rightarrow> (refusal (message_of err), w2)))"

text \<open>
  A JavaScript object with string keys: the keys in insertion order with their values.
  \<open>obj_set\<close> is \<^verbatim>\<open>o[k] = v\<close>, \<open>obj_has\<close> is \<^verbatim>\<open>k in o\<close>, \<open>obj_without\<close> is the rest of a
  destructuring that takes \<open>k\<close> out.
\<close>

type_synonym obj = "(string \<times> nat) list"

definition obj_has :: "obj \<Rightarrow> string \<Rightarrow> bool" where
  "obj_has ob k = (k \<in> set (map fst ob))"

fun obj_set :: "obj \<Rightarrow> string \<Rightarrow> nat \<Rightarrow> obj" where
  "obj_set [] k v = [(k, v)]"
| "obj_set (kv # rest) k v = (if fst kv = k then (k, v) # rest else kv # obj_set rest k v)"

definition obj_get :: "obj \<Rightarrow> string \<Rightarrow> nat option" where
  "obj_get ob k = map_of ob k"

definition obj_without :: "obj \<Rightarrow> string \<Rightarrow> obj" where
  "obj_without ob k = filter (\<lambda>kv. fst kv \<noteq> k) ob"

definition stats0 :: obj where
  "stats0 = [(''total'', 0), (''draft'', 0), (''sent'', 0), (''delivered'', 0), (''opened'', 0),
             (''clicked'', 0), (''bounced'', 0), (''failed'', 0), (''queued'', 0)]"

text \<open>One round of the \<^verbatim>\<open>for (const group of emails)\<close> loop.\<close>

definition stats_step :: "obj \<Rightarrow> EmailStatus \<times> nat \<Rightarrow> obj" where
  "stats_step stats grp =
     (let count = snd grp;
          stats1 = obj_set stats ''total''
                     ((case obj_get stats ''total'' of Some t \<Rightarrow> t | None \<Rightarrow> 0) + count)
      in if obj_has stats1 (status_name (fst grp))
         then obj_set stats1 (status_name (fst grp)) count
         else stats1)"

definition getEmailStats :: "world \<Rightarrow> string \<Rightarrow> (exn + obj) \<times> world" where
  "getEmailStats w userId =
     (case prisma_email_groupBy w userId of
        (Inl e, w1) \<Rightarrow> (Inl e, w1)
      | (Inr groups, w1) \<Rightarrow> (Inr (obj_without (foldl stats_step stats0 groups) ''queued''), w1))"

section \<open>The parts of an address\<close>

text \<open>What stands after the last occurrence of \<open>c\<close> (all of \<open>s\<close> when there is none).\<close>

definition after_last :: "char \<Rightarrow> string \<Rightarrow> string" where
  "after_last c s = rev (takeWhile (\<lambda>x. x \<noteq> c) (rev s))"

definition normalized :: "string \<Rightarrow> string" where
  "normalized email = toLowerCase (trim email)"

text \<open>The lower-cased, trimmed substring after the last \<^verbatim>\<open>@\<close>.\<close>

definition domain_part :: "string \<Rightarrow> string" where
  "domain_part email = after_last CHR ''@'' (normalized email)"

section \<open>A persistence call that is answered\<close>

text \<open>The next persistence call is answered, not thrown: the schedule is empty or its head
  is \<open>False\<close>.\<close>

definition answered :: "world \<Rightarrow> bool" where
  "answered w = (case outages w of [] \<Rightarrow> True | b # bs \<Rightarrow> b = False)"

section \<open>Error classes and sample data\<close>

text \<open>The ALREADY_SENT class, as the integration test recognises it:
  \<^verbatim>\<open>result.error?.includes('already been sent')\<close>.\<close>

definition already_sent_error :: "SendEmailResponse \<Rightarrow> bool" where
  "already_sent_error r =
     (case res_error r of None \<Rightarrow> False | Some m \<Rightarrow> includes_str m ''already been sent'')"

definition contact_of :: "string \<Rightarrow> Contact" where
  "contact_of addr =
     \<lparr>c_id = ''c1'', c_userId = ''u1'', c_email = addr, firstName = Some ''Ada'',
      lastName = None, title = None, company = None, phone = None, c_notes = None,
      companyDomain = None, researchStatus = R_na\<rparr>"

definition email_in :: "EmailStatus \<Rightarrow> Email" where
  "email_in st =
     \<lparr>e_id = ''e1'', e_userId = ''u1'', e_contactId = ''c1'', subject = ''Hello'',
      bodyText = ''Hi Ada'', bodyHtml = None, e_status = st, sentAt = None,
      sendgridMessageId = None, openedAt = None, clickedAt = None, bouncedAt = None\<rparr>"

text \<open>A world with one contact, whose address is \<open>addr\<close>, and one email to it in status \<open>st\<close>.\<close>

definition mailbox :: "EmailStatus \<Rightarrow> string \<Rightarrow> world" where
  "mailbox st addr =
     \<lparr>contacts = [contact_of addr], emails = [email_in st], companyResearch = [],
      outages = [], trace = []\<rparr>"

definition mock_delivery :: Delivery where
  "mock_delivery =
     \<lparr>sendGridConfigured = False, mockMessageId = ''mock_1'',
      sgSend = (\<lambda>p. \<lparr>sr_success = False, sr_messageId = None, sr_error = None,
                       sr_mockMode = None\<rparr>),
      now = 7\<rparr>"

text \<open>The statistics object with total \<open>t\<close> and the count \<open>f st\<close> under each status.\<close>

definition stats_obj :: "nat \<Rightarrow> (EmailStatus \<Rightarrow> nat) \<Rightarrow> obj" where
  "stats_obj t f =
     [(''total'', t), (''draft'', f draft), (''sent'', f sent), (''delivered'', f delivered),
      (''opened'', f opened), (''clicked'', f clicked), (''bounced'', f bounced),
      (''failed'', f failed), (''queued'', f queued)]"

definition empty_world :: world where
  "empty_world = \<lparr>contacts = [], emails = [], companyResearch = [], outages = [], trace = []\<rparr>"

definition input_of :: "string \<Rightarrow> CreateContactInput" where
  "input_of addr =
     \<lparr>i_email = addr, i_firstName = Some '' Ada '', i_lastName = None, i_title = None,
      i_company = None, i_phone = None, i_notes = None\<rparr>"

definition business_contact :: Contact where
  "business_contact =
     \<lparr>c_id = ''c1'', c_userId = ''u1'', c_email = ''ceo@stripe.com'', firstName = Some ''Ada'',
      lastName = None, title = None, company = None, phone = None, c_notes = None,
      companyDomain = Some ''stripe.com'', researchStatus = R_pending\<rparr>"

text \<open>A world with one business contact, still pending, and a given schedule of outages.\<close>

definition crm :: "bool list \<Rightarrow> world" where
  "crm sched =
     \<lparr>contacts = [business_contact], emails = [], companyResearch = [], outages = sched,
      trace = []\<rparr>"

definition mock_client :: ClearbitClient where
  "mock_client =
     \<lparr>useMock = True,
      httpGet = (\<lambda>d. Failure \<lparr>code = API_ERROR, message = ''Clearbit API error: offline''\<rparr>)\<rparr>"


definition profile :: CompanyData where
  "profile =
     \<lparr>cd_domain = [], companyName = Some ''Stripe'', industry = Some ''Financial Services'',
      description = None, employeeCount = Some ''1001-5000'', location = None,
      website = Some ''https://stripe.com'', linkedinUrl = None, twitterUrl = None,
      technologies = [''React''], rawData = None\<rparr>"

text \<open>A client with a real key whose provider knows every domain.\<close>

definition client_ok :: ClearbitClient where
  "client_ok = \<lparr>useMock = False, httpGet = (\<lambda>d. Success profile)\<rparr>"

definition personal_contact :: Contact where
  "personal_contact =
     \<lparr>c_id = ''c2'', c_userId = ''u1'', c_email = ''john@gmail.com'', firstName = Some ''Ada'',
      lastName = None, title = None, company = None, phone = None, c_notes = None,
      companyDomain = None, researchStatus = R_na\<rparr>"

definition stripe_row :: CompanyData where
  "stripe_row = profile\<lparr>cd_domain := ''stripe.com''\<rparr>"

definition stripe_result :: ResearchResult where
  "stripe_result =
     \<lparr>rr_success = True, rr_domain = ''stripe.com'', rr_status = R_complete,
      rr_companyResearch = Some stripe_row, rr_error = None\<rparr>"


section \<open>Auxiliary notions for the matcher and the mock\<close>

text \<open>The characters a regular expression mentions, and the expressions that match nothing
  by their shape.\<close>

fun chars_of :: "rexp \<Rightarrow> char set" where
  "chars_of Zero = {}"
| "chars_of One = {}"
| "chars_of (Chars cs) = set cs"
| "chars_of (Alt r s) = chars_of r \<union> chars_of s"
| "chars_of (Seq r s) = chars_of r \<union> chars_of s"
| "chars_of (Star r) = chars_of r"
| "chars_of (Upto n r) = chars_of r"

fun dead :: "rexp \<Rightarrow> bool" where
  "dead Zero = True"
| "dead One = False"
| "dead (Chars cs) = False"
| "dead (Alt r s) = (dead r \<and> dead s)"
| "dead (Seq r s) = (dead r \<or> dead s)"
| "dead (Star r) = False"
| "dead (Upto n r) = False"

text \<open>A domain the mock reports as not found: its lower-cased form contains one of the
  three substrings.\<close>

definition mock_unknown :: "string \<Rightarrow> bool" where
  "mock_unknown domain = list_ex (\<lambda>d. includes_str (toLowerCase domain) d) notFoundDomains"

text \<open>A business contact as \<^verbatim>\<open>createContact\<close> stores it for the sample input.\<close>

definition fresh_contact :: "string \<Rightarrow> string \<Rightarrow> string \<Rightarrow> Contact" where
  "fresh_contact cid addr d =
     \<lparr>c_id = cid, c_userId = ''u1'', c_email = addr, firstName = Some ''Ada'',
      lastName = None, title = None, company = None, phone = None, c_notes = None,
      companyDomain = Some d, researchStatus = R_pending\<rparr>"

definition fresh_created :: "string \<Rightarrow> string \<Rightarrow> string \<Rightarrow> Created" where
  "fresh_created cid addr d =
     \<lparr>cr_contact = fresh_contact cid addr d, isBusinessContact = True, spawned = Some (cid, d)\<rparr>"

section \<open>The batch in the words of the specification\<close>

text \<open>The list cut into windows of \<open>n\<close> entries; the last window holds what is left.\<close>

function windows :: "nat \<Rightarrow> 'a list \<Rightarrow> 'a list list" where
  "windows n xs = (if n = 0 \<or> xs = [] then [] else take n xs # windows n (drop n xs))"
  by pat_completeness auto
termination
  by (relation "measure (\<lambda>(n, xs). length xs)") auto

text \<open>
  The windows run one after the other, each as a \<^verbatim>\<open>Promise.all\<close>, with a timer of
  1000 ms between a window and the next; a rejection ends the run.
\<close>

fun run_windows ::
  "ClearbitClient \<Rightarrow> nat list \<Rightarrow> world \<Rightarrow> (string \<times> string) list list
     \<Rightarrow> (exn + ResearchResult list) \<times> world" where
  "run_windows client sched w [] = (Inr [], w)"
| "run_windows client sched w (b # bs) =
     (case promise_all client sched w b of
        (Inl e, w1, rest) \<Rightarrow> (Inl e, w1)
      | (Inr rs, w1, rest) \<Rightarrow>
          (case run_windows client rest (if bs = [] then w1 else emit (SetTimeout 1000) w1) bs of
             (Inl e, w2) \<Rightarrow> (Inl e, w2)
           | (Inr rs', w2) \<Rightarrow> (Inr (rs @ rs'), w2)))"

section \<open>Measures and invariants of the calls of a window\<close>





section \<open>Sample data for the batch\<close>

text \<open>A client with a real key whose provider knows every domain but \<^verbatim>\<open>acme.io\<close>.\<close>

definition client_mixed :: ClearbitClient where
  "client_mixed =
     \<lparr>useMock = False,
      httpGet = (\<lambda>d. if d = ''acme.io''
                      then Failure \<lparr>code = NOT_FOUND,
                                    message = ''No company data found for domain: '' @ d\<rparr>
                      else Success profile)\<rparr>"

definition acme_failure :: ResearchResult where
  "acme_failure =
     \<lparr>rr_success = False, rr_domain = ''acme.io'', rr_status = R_failed,
      rr_companyResearch = None,
      rr_error = Some ''No company data found for domain: acme.io''\<rparr>"

text \<open>Four entries for the contact of \<open>crm\<close>, two windows at the limit 3, and the world
  after the batch when the calls of a window take their actions in turn.\<close>

definition four_entries :: "(string \<times> string) list" where
  "four_entries = [(''c1'', ''Stripe.com''), (''c1'', ''acme.io''), (''c1'', ''stripe.com''),
                   (''c1'', ''acme.io '')]"

definition after_batch :: world where
  "after_batch =
     \<lparr>contacts = [business_contact\<lparr>researchStatus := R_failed\<rparr>], emails = [],
      companyResearch = [stripe_row], outages = [],
      trace = [EnrichCompany ''stripe.com'', HttpGet ''stripe.com'',
               EnrichCompany ''acme.io'', HttpGet ''acme.io'',
               EnrichCompany ''stripe.com'', HttpGet ''stripe.com'',
               SetTimeout 1000,
               EnrichCompany ''acme.io'', HttpGet ''acme.io'']\<rparr>"

section \<open>Facts about the string functions\<close>

lemma after_last_append: "c \<notin> set d \<Longrightarrow> after_last c (pre @ c # d) = d"
  by (simp add: after_last_def takeWhile_append)

lemma lastIndexOf_range: "-1 \<le> lastIndexOf s c \<and> lastIndexOf s c < int (length s)"
  by (induction s) (auto simp: Let_def)

lemma lastIndexOf_none: "lastIndexOf s c = -1 \<longleftrightarrow> c \<notin> set s"
proof (induction s)
  case Nil
  then show ?case by simp
next
  case (Cons x xs)
  then show ?case using lastIndexOf_range[of xs c] by (auto simp: Let_def)
qed

lemma lastIndexOf_split:
  "c \<in> set s \<Longrightarrow>
   \<exists>pre d. s = pre @ c # d \<and> c \<notin> set d \<and> lastIndexOf s c = int (length pre)"
proof (induction s)
  case Nil
  then show ?case by simp
next
  case (Cons x xs)
  show ?case
  proof (cases "c \<in> set xs")
    case True
    from Cons.IH[OF True] obtain pre d where
      "xs = pre @ c # d" "c \<notin> set d" "lastIndexOf xs c = int (length pre)"
      by blast
    then have "x # xs = (x # pre) @ c # d \<and> c \<notin> set d
                 \<and> lastIndexOf (x # xs) c = int (length (x # pre))"
      by (simp add: Let_def)
    then show ?thesis by blast
  next
    case False
    with Cons.prems have "x = c" by simp
    with False have "x # xs = [] @ c # xs \<and> c \<notin> set xs
                       \<and> lastIndexOf (x # xs) c = int (length ([] :: string))"
      by (simp add: Let_def lastIndexOf_none)
    then show ?thesis by blast
  qed
qed

lemma substring_after_last:
  assumes "c \<in> set s"
  shows "substring s (lastIndexOf s c + 1) = after_last c s"
proof -
  from lastIndexOf_split[OF assms] obtain pre d where
    s: "s = pre @ c # d" and d: "c \<notin> set d" and i: "lastIndexOf s c = int (length pre)"
    by blast
  have "substring s (lastIndexOf s c + 1) = drop (Suc (length pre)) s"
    by (simp add: substring_def i nat_add_distrib)
  also have "\<dots> = d" by (simp add: s)
  finally show ?thesis using after_last_append[OF d, of pre] s by simp
qed

lemma lastIndexOf_zero: "lastIndexOf s c = 0 \<longleftrightarrow> (take 1 s = [c] \<and> c \<notin> set (drop 1 s))"
proof (cases s)
  case Nil
  then show ?thesis by simp
next
  case (Cons x xs)
  then show ?thesis using lastIndexOf_range[of xs c] lastIndexOf_none[of xs c]
    by (auto simp: Let_def)
qed

lemma lastIndexOf_last:
  assumes "c \<in> set s"
  shows "lastIndexOf s c = int (length s) - 1 \<longleftrightarrow> last s = c"
proof -
  from lastIndexOf_split[OF assms] obtain pre d where
    s: "s = pre @ c # d" and d: "c \<notin> set d" and i: "lastIndexOf s c = int (length pre)"
    by blast
  have len: "int (length s) - 1 = int (length pre) + int (length d)"
    by (simp add: s)
  have a: "lastIndexOf s c = int (length s) - 1 \<longleftrightarrow> d = []"
    unfolding len i by simp
  have b: "last s = c \<longleftrightarrow> d = []"
    using d by (cases d rule: rev_cases) (auto simp: s)
  show ?thesis using a b by simp
qed

lemma startsWith_single: "startsWith s [c] \<longleftrightarrow> (s \<noteq> [] \<and> hd s = c)"
  by (cases s) auto

lemma includes_single: "includes_str s [c] \<longleftrightarrow> c \<in> set s"
  by (induction s) (auto simp: startsWith_single)

section \<open>Facts about the classifier\<close>

lemma normalized_Nil: "normalized [] = []"
  by (simp add: normalized_def trim_def toLowerCase_def)

lemma after_last_free: "c \<notin> set (after_last c s)"
  by (auto simp: after_last_def dest: set_takeWhileD)

lemma lastIndexOf_zero_after: "lastIndexOf s c = 0 \<longleftrightarrow> s = c # after_last c s"
proof
  assume "lastIndexOf s c = 0"
  then have "take 1 s = [c]" and n: "c \<notin> set (drop 1 s)" by (simp_all add: lastIndexOf_zero)
  then obtain rest where s: "s = c # rest" by (cases s) auto
  with n have "c \<notin> set rest" by simp
  from after_last_append[OF this, of "[]"] show "s = c # after_last c s" by (simp add: s)
next
  assume a: "s = c # after_last c s"
  have "take 1 s = [c]" by (subst a) simp
  moreover have "c \<notin> set (drop 1 s)" by (subst a) (simp add: after_last_free)
  ultimately show "lastIndexOf s c = 0" by (simp add: lastIndexOf_zero)
qed

text \<open>
  When \<^verbatim>\<open>extractDomain\<close> answers \<^verbatim>\<open>null\<close>: there is no \<^verbatim>\<open>@\<close>, or nothing stands before the
  last \<^verbatim>\<open>@\<close>, or nothing after it, or the part after it has no dot or fails the regex.
  In every other case the answer is the part after the last \<^verbatim>\<open>@\<close>.
\<close>

lemma extractDomain_None_iff:
  "extractDomain e = None \<longleftrightarrow>
     (CHR ''@'' \<notin> set (normalized e)
      \<or> normalized e = CHR ''@'' # domain_part e
      \<or> last (normalized e) = CHR ''@''
      \<or> CHR ''.'' \<notin> set (domain_part e)
      \<or> \<not> test domainRegex (domain_part e))"
proof (cases "CHR ''@'' \<in> set (normalized e)")
  case False
  then have "lastIndexOf (normalized e) CHR ''@'' = -1"
    by (simp add: lastIndexOf_none)
  then have "extractDomain e = None"
    by (simp add: extractDomain_def Let_def normalized_def)
  with False show ?thesis by simp
next
  case True
  then have ne: "e \<noteq> []" using normalized_Nil by auto
  have sub: "substring (normalized e) (lastIndexOf (normalized e) CHR ''@'' + 1) = domain_part e"
    using substring_after_last[OF True] by (simp add: domain_part_def)
  have n1: "lastIndexOf (normalized e) CHR ''@'' \<noteq> -1"
    using True by (simp add: lastIndexOf_none)
  have z: "lastIndexOf (normalized e) CHR ''@'' = 0
             \<longleftrightarrow> normalized e = CHR ''@'' # domain_part e"
    by (simp add: lastIndexOf_zero_after domain_part_def)
  show ?thesis
    using ne True sub n1 z lastIndexOf_last[OF True]
    by (simp add: extractDomain_def Let_def includes_single flip: normalized_def)
qed

lemma extractDomain_Some: "extractDomain e = Some d \<Longrightarrow> d = domain_part e"
proof -
  assume a: "extractDomain e = Some d"
  then have t: "CHR ''@'' \<in> set (normalized e)"
    using extractDomain_None_iff[of e] by auto
  have "substring (normalized e) (lastIndexOf (normalized e) CHR ''@'' + 1) = domain_part e"
    using substring_after_last[OF t] by (simp add: domain_part_def)
  with a show ?thesis
    by (auto simp: extractDomain_def Let_def normalized_def split: if_splits)
qed

lemma isBusinessEmail_iff:
  "isBusinessEmail e \<longleftrightarrow>
     (extractDomain e = Some (domain_part e)
      \<and> domain_part e \<notin> set PERSONAL_EMAIL_DOMAINS
      \<and> \<not> endsWith (domain_part e) ''.edu'' \<and> \<not> endsWith (domain_part e) ''.edu.au''
      \<and> \<not> endsWith (domain_part e) ''.ac.uk'' \<and> \<not> endsWith (domain_part e) ''.gov''
      \<and> \<not> endsWith (domain_part e) ''.gov.uk'' \<and> \<not> endsWith (domain_part e) ''.gov.au'')"
proof (cases "extractDomain e")
  case None
  then show ?thesis by (simp add: isBusinessEmail_def)
next
  case (Some d)
  then have d: "d = domain_part e" by (rule extractDomain_Some)
  have "CHR ''.'' \<in> set (domain_part e)"
    using Some extractDomain_None_iff[of e] by auto
  then have "domain_part e \<noteq> []" by auto
  then show ?thesis using Some d by (auto simp: isBusinessEmail_def)
qed

text \<open>
  Claim C6, as the code has it. Write \<open>t\<close> for the trimmed, lower-cased address and \<open>d\<close> for
  what stands after its last \<^verbatim>\<open>@\<close>. When \<open>t\<close> has an \<^verbatim>\<open>@\<close>, something stands before the
  last \<^verbatim>\<open>@\<close> and after it, and \<open>d\<close> has a dot, passes the domain regex, is not on the
  denylist and does not end in \<^verbatim>\<open>.edu\<close>, \<^verbatim>\<open>.edu.au\<close>, \<^verbatim>\<open>.ac.uk\<close>, \<^verbatim>\<open>.gov\<close>, \<^verbatim>\<open>.gov.uk\<close> or
  \<^verbatim>\<open>.gov.au\<close>, the address is business with the domain \<open>d\<close>. When \<open>d\<close> is on the denylist or
  ends in one of these six suffixes the address is not business. When \<open>t\<close> has no \<^verbatim>\<open>@\<close>,
  or its last \<^verbatim>\<open>@\<close> is at position 0 or at the end, or \<open>d\<close> has no dot or fails the regex,
  the domain is null and the address is not business. Only the last \<^verbatim>\<open>@\<close> counts, and no
  other educational or governmental suffix is known.
\<close>

theorem classify_correct:
  "(CHR ''@'' \<in> set (normalized e)
      \<and> normalized e \<noteq> CHR ''@'' # domain_part e
      \<and> last (normalized e) \<noteq> CHR ''@''
      \<and> CHR ''.'' \<in> set (domain_part e)
      \<and> test domainRegex (domain_part e)
      \<and> domain_part e \<notin> set PERSONAL_EMAIL_DOMAINS
      \<and> \<not> endsWith (domain_part e) ''.edu'' \<and> \<not> endsWith (domain_part e) ''.edu.au''
      \<and> \<not> endsWith (domain_part e) ''.ac.uk'' \<and> \<not> endsWith (domain_part e) ''.gov''
      \<and> \<not> endsWith (domain_part e) ''.gov.uk'' \<and> \<not> endsWith (domain_part e) ''.gov.au''
      \<longrightarrow> isBusinessEmail e \<and> extractDomain e = Some (domain_part e))
   \<and> (domain_part e \<in> set PERSONAL_EMAIL_DOMAINS
        \<or> endsWith (domain_part e) ''.edu'' \<or> endsWith (domain_part e) ''.edu.au''
        \<or> endsWith (domain_part e) ''.ac.uk'' \<or> endsWith (domain_part e) ''.gov''
        \<or> endsWith (domain_part e) ''.gov.uk'' \<or> endsWith (domain_part e) ''.gov.au''
      \<longrightarrow> \<not> isBusinessEmail e)
   \<and> (CHR ''@'' \<notin> set (normalized e)
        \<or> normalized e = CHR ''@'' # domain_part e
        \<or> last (normalized e) = CHR ''@''
        \<or> CHR ''.'' \<notin> set (domain_part e)
        \<or> \<not> test domainRegex (domain_part e)
      \<longrightarrow> extractDomain e = None \<and> \<not> isBusinessEmail e)"
proof -
  have a: "extractDomain e = Some (domain_part e)"
    if "CHR ''@'' \<in> set (normalized e)" "normalized e \<noteq> CHR ''@'' # domain_part e"
       "last (normalized e) \<noteq> CHR ''@''" "CHR ''.'' \<in> set (domain_part e)"
       "test domainRegex (domain_part e)"
  proof -
    from that have "extractDomain e \<noteq> None" by (simp add: extractDomain_None_iff)
    then obtain d where "extractDomain e = Some d" by auto
    then show ?thesis using extractDomain_Some by auto
  qed
  have c: "extractDomain e = None \<and> \<not> isBusinessEmail e"
    if "CHR ''@'' \<notin> set (normalized e) \<or> normalized e = CHR ''@'' # domain_part e
        \<or> last (normalized e) = CHR ''@'' \<or> CHR ''.'' \<notin> set (domain_part e)
        \<or> \<not> test domainRegex (domain_part e)"
    using that extractDomain_None_iff[of e] by (simp add: isBusinessEmail_def)
  show ?thesis using a c by (auto simp: isBusinessEmail_iff)
qed

theorem classify_correct_witness:
  "(isBusinessEmail '' CEO@Stripe.com'' \<and> extractDomain '' CEO@Stripe.com'' = Some ''stripe.com'')
   \<and> \<not> isBusinessEmail ''john@gmail.com''
   \<and> \<not> isBusinessEmail ''dean@cs.mit.edu''
   \<and> (extractDomain ''not-an-email'' = None \<and> \<not> isBusinessEmail ''not-an-email'')"
proof -
  have d1: "domain_part '' CEO@Stripe.com'' = ''stripe.com''" by code_simp
  have h1: "CHR ''@'' \<in> set (normalized '' CEO@Stripe.com'')
      \<and> normalized '' CEO@Stripe.com'' \<noteq> CHR ''@'' # domain_part '' CEO@Stripe.com''
      \<and> last (normalized '' CEO@Stripe.com'') \<noteq> CHR ''@''
      \<and> CHR ''.'' \<in> set (domain_part '' CEO@Stripe.com'')
      \<and> test domainRegex (domain_part '' CEO@Stripe.com'')
      \<and> domain_part '' CEO@Stripe.com'' \<notin> set PERSONAL_EMAIL_DOMAINS
      \<and> \<not> endsWith (domain_part '' CEO@Stripe.com'') ''.edu''
      \<and> \<not> endsWith (domain_part '' CEO@Stripe.com'') ''.edu.au''
      \<and> \<not> endsWith (domain_part '' CEO@Stripe.com'') ''.ac.uk''
      \<and> \<not> endsWith (domain_part '' CEO@Stripe.com'') ''.gov''
      \<and> \<not> endsWith (domain_part '' CEO@Stripe.com'') ''.gov.uk''
      \<and> \<not> endsWith (domain_part '' CEO@Stripe.com'') ''.gov.au''" by code_simp
  have h2: "domain_part ''john@gmail.com'' \<in> set PERSONAL_EMAIL_DOMAINS" by code_simp
  have h3: "endsWith (domain_part ''dean@cs.mit.edu'') ''.edu''" by code_simp
  have h4: "CHR ''@'' \<notin> set (normalized ''not-an-email'')" by code_simp
  have 1: "isBusinessEmail '' CEO@Stripe.com''
           \<and> extractDomain '' CEO@Stripe.com'' = Some ''stripe.com''"
    using classify_correct[of "'' CEO@Stripe.com''"] h1 d1 by simp
  have 2: "\<not> isBusinessEmail ''john@gmail.com''"
    using classify_correct[of "''john@gmail.com''"] h2 by simp
  have 3: "\<not> isBusinessEmail ''dean@cs.mit.edu''"
    using classify_correct[of "''dean@cs.mit.edu''"] h3 by simp
  have 4: "extractDomain ''not-an-email'' = None \<and> \<not> isBusinessEmail ''not-an-email''"
    using classify_correct[of "''not-an-email''"] h4 by simp
  show ?thesis using 1 2 3 4 by simp
qed

text \<open>
  An address under a regional educational suffix the code does not list is business, and
  an address that starts with \<^verbatim>\<open>@\<close> has a domain when another \<^verbatim>\<open>@\<close> follows.
\<close>

theorem classify_counterexample:
  "isBusinessEmail ''dean@tsinghua.edu.cn''
   \<and> extractDomain ''@a@b.com'' = Some ''b.com''
   \<and> isBusinessEmail ''@a@b.com''"
  by code_simp

section \<open>The delivery status tracker\<close>

lemma db_call_healthy: "outages w = [] \<Longrightarrow> db_call w = (Inr (), w)"
  by (simp add: db_call_def)

lemma findFirst_healthy:
  "outages w = [] \<Longrightarrow>
   prisma_email_findFirst w emailId userId =
     (Inr (case find (\<lambda>e. e_id e = emailId \<and> e_userId e = userId) (emails w) of
             None \<Rightarrow> None
           | Some e \<Rightarrow> Some (e, find (\<lambda>c. c_id c = e_contactId e) (contacts w))), w)"
  by (simp add: prisma_email_findFirst_def db_call_healthy split: option.splits)

lemma status_message_not_already_sent:
  "\<not> includes_str (''Cannot send email with status: '' @ status_name st) ''already been sent''"
  by (cases st) (simp_all add: status_name_def)

lemma db_call_answered:
  "answered w \<Longrightarrow> fst (db_call w) = Inr ()"
  by (auto simp: answered_def db_call_def split: list.splits)

lemma db_call_tables:
  "emails (snd (db_call w)) = emails w" "contacts (snd (db_call w)) = contacts w"
  "companyResearch (snd (db_call w)) = companyResearch w" "trace (snd (db_call w)) = trace w"
  by (simp_all add: db_call_def split: list.splits)

lemma findFirst_answered:
  assumes "answered w"
  shows "prisma_email_findFirst w emailId userId =
     (Inr (case find (\<lambda>e. e_id e = emailId \<and> e_userId e = userId) (emails w) of
             None \<Rightarrow> None
           | Some e \<Rightarrow> Some (e, find (\<lambda>c. c_id c = e_contactId e) (contacts w))),
      snd (db_call w))"
proof -
  obtain r w1 where d: "db_call w = (r, w1)" by (cases "db_call w") blast
  with db_call_answered[OF assms] have r: "r = Inr ()" by simp
  from d db_call_tables[of w] have "emails w1 = emails w" "contacts w1 = contacts w" by simp_all
  then show ?thesis using d r
    by (simp add: prisma_email_findFirst_def split: option.splits)
qed

text \<open>
  Claim C1, as the code has it. For a stored email of the caller whose status is sent,
  delivered, opened, clicked or bounced, when the lookup of the email is answered,
  \<^verbatim>\<open>sendSavedEmail\<close> refuses and changes no table (status, \<^verbatim>\<open>sentAt\<close> and message id stay).
  The refusal is "Email has already been sent" for sent and delivered only; for opened,
  clicked and bounced it is the refusal of the sendable-state check, "Cannot send email
  with status:" and the status, which is not of the already-sent class.
\<close>

theorem send_after_dispatch:
  assumes "answered w"
    and "find (\<lambda>e. e_id e = emailId \<and> e_userId e = userId) (emails w) = Some em"
    and "e_status em \<in> {sent, delivered, opened, clicked, bounced}"
  shows "sendSavedEmail dl w emailId userId =
           (refusal (if e_status em \<in> {sent, delivered} then ''Email has already been sent''
                     else ''Cannot send email with status: '' @ status_name (e_status em)),
            snd (db_call w))
         \<and> emails (snd (db_call w)) = emails w
         \<and> (already_sent_error (fst (sendSavedEmail dl w emailId userId))
              \<longleftrightarrow> e_status em \<in> {sent, delivered})"
proof -
  have r: "sendSavedEmail dl w emailId userId =
           (refusal (if e_status em \<in> {sent, delivered} then ''Email has already been sent''
                     else ''Cannot send email with status: '' @ status_name (e_status em)),
            snd (db_call w))"
    using assms(2,3) by (auto simp: sendSavedEmail_def send_try_def findFirst_answered[OF assms(1)])
  have "already_sent_error (refusal ''Email has already been sent'')"
    by (simp add: already_sent_error_def refusal_def)
  moreover have "\<not> already_sent_error
                     (refusal (''Cannot send email with status: '' @ status_name (e_status em)))"
    using status_message_not_already_sent[of "e_status em"]
    by (simp add: already_sent_error_def refusal_def)
  ultimately show ?thesis using r by (simp add: db_call_tables)
qed

theorem send_after_dispatch_witness:
  "sendSavedEmail mock_delivery (mailbox sent ''ada@stripe.com'') ''e1'' ''u1'' =
     (refusal ''Email has already been sent'', mailbox sent ''ada@stripe.com'')
   \<and> sendSavedEmail mock_delivery (mailbox bounced ''ada@stripe.com'') ''e1'' ''u1'' =
     (refusal ''Cannot send email with status: bounced'', mailbox bounced ''ada@stripe.com'')"
proof -
  have a: "answered (mailbox sent ''ada@stripe.com'')" "answered (mailbox bounced ''ada@stripe.com'')"
    by (simp_all add: answered_def mailbox_def)
  have f: "find (\<lambda>e. e_id e = ''e1'' \<and> e_userId e = ''u1'') (emails (mailbox sent ''ada@stripe.com''))
             = Some (email_in sent)"
    "find (\<lambda>e. e_id e = ''e1'' \<and> e_userId e = ''u1'') (emails (mailbox bounced ''ada@stripe.com''))
             = Some (email_in bounced)"
    by (simp_all add: mailbox_def email_in_def)
  have s: "e_status (email_in sent) \<in> {sent, delivered, opened, clicked, bounced}"
    "e_status (email_in bounced) \<in> {sent, delivered, opened, clicked, bounced}"
    by (simp_all add: email_in_def)
  have d: "snd (db_call (mailbox sent ''ada@stripe.com'')) = mailbox sent ''ada@stripe.com''"
    "snd (db_call (mailbox bounced ''ada@stripe.com'')) = mailbox bounced ''ada@stripe.com''"
    by (simp_all add: db_call_def mailbox_def)
  show ?thesis
    using send_after_dispatch[OF a(1) f(1) s(1), of mock_delivery]
      send_after_dispatch[OF a(2) f(2) s(2), of mock_delivery] d
    by (simp add: email_in_def status_name_def)
qed

text \<open>An opened email is refused by the second check, not as already sent.\<close>

theorem send_opened_counterexample:
  "fst (sendSavedEmail mock_delivery (mailbox opened ''ada@stripe.com'') ''e1'' ''u1'')
     = refusal ''Cannot send email with status: opened''
   \<and> \<not> already_sent_error
         (fst (sendSavedEmail mock_delivery (mailbox opened ''ada@stripe.com'') ''e1'' ''u1''))"
  by (simp add: sendSavedEmail_def send_try_def prisma_email_findFirst_def db_call_def
      mailbox_def email_in_def contact_of_def status_name_def already_sent_error_def refusal_def)

text \<open>
  When the lookup itself throws, the \<^verbatim>\<open>catch\<close> block marks the email failed whatever its
  status was, and answers with the message of the error.
\<close>

lemma send_lookup_throws:
  "sendSavedEmail mock_delivery ((mailbox sent ''ada@stripe.com'')\<lparr>outages := [True]\<rparr>) ''e1'' ''u1''
     = (refusal ''database unavailable'', mailbox failed ''ada@stripe.com'')"
  by (simp add: sendSavedEmail_def send_try_def prisma_email_findFirst_def prisma_email_update_def
      db_call_def mailbox_def email_in_def contact_of_def refusal_def)

text \<open>
  Claim C7, as the code has it. For a stored email of the caller whose contact has the
  empty address, when the lookup of the email is answered, \<^verbatim>\<open>sendSavedEmail\<close> refuses and
  changes no table: the status is not advanced to queued. The status checks come first:
  the refusal is "Email has already been sent" for sent and delivered, "Cannot send email
  with status:" and the status for opened, clicked and bounced, and "Contact does not have
  an email address" for the sendable statuses draft, queued and failed.
\<close>

theorem send_without_recipient:
  assumes "answered w"
    and "find (\<lambda>e. e_id e = emailId \<and> e_userId e = userId) (emails w) = Some em"
    and "find (\<lambda>c. c_id c = e_contactId em) (contacts w) = Some c"
    and "c_email c = []"
  shows "sendSavedEmail dl w emailId userId =
           (refusal (if e_status em \<in> {sent, delivered} then ''Email has already been sent''
                     else if e_status em \<in> {opened, clicked, bounced}
                     then ''Cannot send email with status: '' @ status_name (e_status em)
                     else ''Contact does not have an email address''),
            snd (db_call w))
         \<and> emails (snd (db_call w)) = emails w
         \<and> (e_status em \<in> {draft, queued, failed} \<longrightarrow>
              fst (sendSavedEmail dl w emailId userId)
                = refusal ''Contact does not have an email address'')"
  using assms(2,3,4)
  by (cases "e_status em")
     (auto simp: sendSavedEmail_def send_try_def findFirst_answered[OF assms(1)] db_call_tables)

theorem send_without_recipient_witness:
  "sendSavedEmail mock_delivery (mailbox draft []) ''e1'' ''u1'' =
     (refusal ''Contact does not have an email address'', mailbox draft [])"
proof -
  have a: "answered (mailbox draft [])" by (simp add: answered_def mailbox_def)
  have f: "find (\<lambda>e. e_id e = ''e1'' \<and> e_userId e = ''u1'') (emails (mailbox draft []))
             = Some (email_in draft)"
    by (simp add: mailbox_def email_in_def)
  have c: "find (\<lambda>c. c_id c = e_contactId (email_in draft)) (contacts (mailbox draft []))
             = Some (contact_of [])"
    by (simp add: mailbox_def email_in_def contact_of_def)
  have e: "c_email (contact_of []) = []" by (simp add: contact_of_def)
  have d: "snd (db_call (mailbox draft [])) = mailbox draft []"
    by (simp add: db_call_def mailbox_def)
  show ?thesis
    using send_without_recipient[OF a f c e, of mock_delivery] d
    by (simp add: email_in_def)
qed

text \<open>A sent email with the empty recipient is refused as already sent.\<close>

theorem send_sent_without_recipient_counterexample:
  "fst (sendSavedEmail mock_delivery (mailbox sent []) ''e1'' ''u1'')
     = refusal ''Email has already been sent''
   \<and> res_error (fst (sendSavedEmail mock_delivery (mailbox sent []) ''e1'' ''u1''))
       \<noteq> Some ''Contact does not have an email address''"
  by (simp add: sendSavedEmail_def send_try_def prisma_email_findFirst_def db_call_def
      mailbox_def email_in_def contact_of_def refusal_def)

section \<open>Statistics\<close>

lemma stats0_obj: "stats0 = stats_obj 0 (\<lambda>_. 0)"
  by (simp add: stats0_def stats_obj_def)

lemma stats_step_obj: "stats_step (stats_obj t f) (st, n) = stats_obj (t + n) (f(st := n))"
  by (cases st)
     (simp_all add: stats_step_def stats_obj_def obj_has_def obj_get_def status_name_def)

lemma foldl_stats_obj:
  "foldl stats_step (stats_obj t f) (filter (\<lambda>g. 0 < snd g) (map (\<lambda>st. (st, c st)) sts)) =
     stats_obj (t + sum_list (map c sts))
               (\<lambda>st. if st \<in> set sts \<and> 0 < c st then c st else f st)"
proof (induction sts arbitrary: t f)
  case Nil
  then show ?case by simp
next
  case (Cons s sts)
  have eq: "(\<lambda>st. if st \<in> set sts \<and> 0 < c st then c st else (f(s := c s)) st)
            = (\<lambda>st. if st \<in> set (s # sts) \<and> 0 < c st then c st else f st)"
    if "0 < c s" using that by (auto simp: fun_eq_iff)
  have eq0: "(\<lambda>st. if st \<in> set sts \<and> 0 < c st then c st else f st)
            = (\<lambda>st. if st \<in> set (s # sts) \<and> 0 < c st then c st else f st)"
    if "c s = 0" using that by (auto simp: fun_eq_iff)
  show ?case
  proof (cases "0 < c s")
    case True
    have "foldl stats_step (stats_obj t f)
            (filter (\<lambda>g. 0 < snd g) (map (\<lambda>st. (st, c st)) (s # sts)))
          = foldl stats_step (stats_obj (t + c s) (f(s := c s)))
              (filter (\<lambda>g. 0 < snd g) (map (\<lambda>st. (st, c st)) sts))"
      using True by (simp add: stats_step_obj)
    also have "\<dots> = stats_obj (t + c s + sum_list (map c sts))
                 (\<lambda>st. if st \<in> set sts \<and> 0 < c st then c st else (f(s := c s)) st)"
      by (rule Cons.IH)
    also have "\<dots> = stats_obj (t + sum_list (map c (s # sts)))
                 (\<lambda>st. if st \<in> set (s # sts) \<and> 0 < c st then c st else f st)"
      unfolding eq[OF True] by (simp add: add.assoc)
    finally show ?thesis .
  next
    case False
    then have z: "c s = 0" by simp
    have "foldl stats_step (stats_obj t f)
            (filter (\<lambda>g. 0 < snd g) (map (\<lambda>st. (st, c st)) (s # sts)))
          = foldl stats_step (stats_obj t f)
              (filter (\<lambda>g. 0 < snd g) (map (\<lambda>st. (st, c st)) sts))"
      using z by simp
    also have "\<dots> = stats_obj (t + sum_list (map c sts))
                 (\<lambda>st. if st \<in> set sts \<and> 0 < c st then c st else f st)"
      by (rule Cons.IH)
    also have "\<dots> = stats_obj (t + sum_list (map c (s # sts)))
                 (\<lambda>st. if st \<in> set (s # sts) \<and> 0 < c st then c st else f st)"
      unfolding eq0[OF z] using z by simp
    finally show ?thesis .
  qed
qed

lemma all_statuses_complete: "st \<in> set all_statuses"
  by (cases st) (simp_all add: all_statuses_def)

lemma count_total:
  "sum_list (map (\<lambda>st. length (filter (\<lambda>e. e_userId e = u \<and> e_status e = st) es)) all_statuses)
     = length (filter (\<lambda>e. e_userId e = u) es)"
proof (induction es)
  case Nil
  then show ?case by (simp add: all_statuses_def)
next
  case (Cons e es)
  show ?case
  proof (cases "e_userId e = u")
    case False
    then show ?thesis using Cons by simp
  next
    case True
    then show ?thesis using Cons by (cases "e_status e") (simp_all add: all_statuses_def)
  qed
qed

lemma getEmailStats_healthy:
  assumes "outages w = []"
  shows "getEmailStats w u =
           (Inr (obj_without (stats_obj (length (filter (\<lambda>e. e_userId e = u) (emails w)))
                                        (count_status w u)) ''queued''), w)"
proof -
  have "foldl stats_step stats0
          (filter (\<lambda>g. 0 < snd g) (map (\<lambda>st. (st, count_status w u st)) all_statuses))
        = stats_obj (sum_list (map (count_status w u) all_statuses))
            (\<lambda>st. if st \<in> set all_statuses \<and> 0 < count_status w u st
                   then count_status w u st else 0)"
    unfolding stats0_obj using foldl_stats_obj[of 0 "\<lambda>_. 0" "count_status w u" all_statuses]
    by simp
  moreover have "(\<lambda>st. if st \<in> set all_statuses \<and> 0 < count_status w u st
                   then count_status w u st else 0) = count_status w u"
    by (rule ext) (simp add: all_statuses_complete)
  moreover have "sum_list (map (count_status w u) all_statuses)
                  = length (filter (\<lambda>e. e_userId e = u) (emails w))"
    using count_total[of u "emails w"] by (simp add: count_status_def[abs_def])
  ultimately show ?thesis using assms
    by (simp add: getEmailStats_def prisma_email_groupBy_def db_call_def)
qed

text \<open>
  Claim C3, as the code has it. On a database that answers, \<^verbatim>\<open>getEmailStats\<close> returns
  an object with exactly the keys total, draft, sent, delivered, opened, clicked, bounced
  and failed: the number of the user's emails, and for each of these seven statuses the
  number of the user's emails in it (0 when there is none). The key queued is taken out
  before the object is returned; queued emails count in the total only.
\<close>

theorem stats_keys:
  assumes "outages w = []"
  shows "getEmailStats w u =
           (Inr [(''total'', length (filter (\<lambda>e. e_userId e = u) (emails w))),
                 (''draft'', count_status w u draft),
                 (''sent'', count_status w u sent),
                 (''delivered'', count_status w u delivered),
                 (''opened'', count_status w u opened),
                 (''clicked'', count_status w u clicked),
                 (''bounced'', count_status w u bounced),
                 (''failed'', count_status w u failed)], w)"
  using getEmailStats_healthy[OF assms, of u] by (simp add: obj_without_def stats_obj_def)

theorem stats_keys_witness:
  "getEmailStats (mailbox sent ''ada@stripe.com'') ''u1'' =
     (Inr [(''total'', 1), (''draft'', 0), (''sent'', 1), (''delivered'', 0), (''opened'', 0),
           (''clicked'', 0), (''bounced'', 0), (''failed'', 0)], mailbox sent ''ada@stripe.com'')"
proof -
  have h: "outages (mailbox sent ''ada@stripe.com'') = []" by (simp add: mailbox_def)
  show ?thesis using stats_keys[OF h, of "''u1''"]
    by (simp add: mailbox_def count_status_def email_in_def)
qed

text \<open>A user with one queued email: the result has no key for the status queued.\<close>

theorem stats_queued_counterexample:
  "fst (getEmailStats (mailbox queued ''ada@stripe.com'') ''u1'') =
     Inr [(''total'', 1), (''draft'', 0), (''sent'', 0), (''delivered'', 0), (''opened'', 0),
          (''clicked'', 0), (''bounced'', 0), (''failed'', 0)]
   \<and> \<not> obj_has [(''total'', 1), (''draft'', 0), (''sent'', 0), (''delivered'', 0),
                  (''opened'', 0), (''clicked'', 0), (''bounced'', 0), (''failed'', 0)]
         (status_name queued)"
  by code_simp

section \<open>The contacts service\<close>

lemma createContact_stored:
  assumes "createContact w newId userId input = (Inr cr, w')"
  shows "\<exists>n. normalizeEmail (i_email input) = Some n
           \<and> c_email (cr_contact cr) = n
           \<and> c_id (cr_contact cr) = newId
           \<and> isBusinessContact cr = isBusinessEmail n
           \<and> companyDomain (cr_contact cr) = (if isBusinessEmail n then extractDomain n else None)
           \<and> researchStatus (cr_contact cr) = (if isBusinessEmail n then R_pending else R_na)
           \<and> spawned cr = (case extractDomain n of None \<Rightarrow> None
                             | Some d \<Rightarrow> if isBusinessEmail n \<and> d \<noteq> [] then Some (newId, d) else None)
           \<and> contacts w' = contacts (snd (db_call (snd (db_call w)))) @ [cr_contact cr]"
  using assms
  by (auto simp: createContact_def prisma_contact_findUnique_def prisma_contact_create_def Let_def
      split: option.splits prod.splits sum.splits if_splits)

lemma business_has_domain: "isBusinessEmail e \<Longrightarrow> extractDomain e \<noteq> None"
  by (auto simp: isBusinessEmail_def split: option.splits)

text \<open>
  Claim C4. For every contact that \<^verbatim>\<open>createContact\<close> created: the research status is na
  exactly when the stored email is classified not business, the company domain is set
  exactly when it is classified business with an extracted domain, a business contact
  starts in pending with the extracted domain, and a personal one has no company domain.
\<close>

theorem created_contact_classified:
  assumes "createContact w newId userId input = (Inr cr, w')"
  shows "(researchStatus (cr_contact cr) = R_na \<longleftrightarrow> \<not> isBusinessEmail (c_email (cr_contact cr)))
       \<and> (companyDomain (cr_contact cr) \<noteq> None \<longleftrightarrow>
            isBusinessEmail (c_email (cr_contact cr)) \<and> extractDomain (c_email (cr_contact cr)) \<noteq> None)
       \<and> (isBusinessEmail (c_email (cr_contact cr)) \<longrightarrow>
            researchStatus (cr_contact cr) = R_pending
            \<and> companyDomain (cr_contact cr) = extractDomain (c_email (cr_contact cr)))
       \<and> (\<not> isBusinessEmail (c_email (cr_contact cr)) \<longrightarrow> companyDomain (cr_contact cr) = None)
       \<and> isBusinessContact cr = isBusinessEmail (c_email (cr_contact cr))
       \<and> cr_contact cr \<in> set (contacts w')"
proof -
  from createContact_stored[OF assms] obtain n where
    n: "c_email (cr_contact cr) = n" "isBusinessContact cr = isBusinessEmail n"
       "companyDomain (cr_contact cr) = (if isBusinessEmail n then extractDomain n else None)"
       "researchStatus (cr_contact cr) = (if isBusinessEmail n then R_pending else R_na)"
       "contacts w' = contacts (snd (db_call (snd (db_call w)))) @ [cr_contact cr]"
    by blast
  show ?thesis using n business_has_domain[of n] by auto
qed

theorem created_contact_classified_witness:
  "createContact empty_world ''c2'' ''u1'' (input_of '' John@Gmail.com'') =
     (Inr \<lparr>cr_contact = personal_contact, isBusinessContact = False, spawned = None\<rparr>,
      empty_world\<lparr>contacts := [personal_contact]\<rparr>)
   \<and> researchStatus personal_contact = R_na \<and> companyDomain personal_contact = None
   \<and> \<not> isBusinessEmail ''john@gmail.com''
   \<and> createContact empty_world ''c1'' ''u1'' (input_of ''CEO@Stripe.com'') =
     (Inr \<lparr>cr_contact = business_contact, isBusinessContact = True,
           spawned = Some (''c1'', ''stripe.com'')\<rparr>, crm [])
   \<and> researchStatus business_contact = R_pending
   \<and> companyDomain business_contact = Some ''stripe.com''
   \<and> isBusinessEmail ''ceo@stripe.com''"
proof -
  have j: "createContact empty_world ''c2'' ''u1'' (input_of '' John@Gmail.com'') =
     (Inr \<lparr>cr_contact = personal_contact, isBusinessContact = False, spawned = None\<rparr>,
      empty_world\<lparr>contacts := [personal_contact]\<rparr>)"
    by code_simp
  have s: "createContact empty_world ''c1'' ''u1'' (input_of ''CEO@Stripe.com'') =
     (Inr \<lparr>cr_contact = business_contact, isBusinessContact = True,
           spawned = Some (''c1'', ''stripe.com'')\<rparr>, crm [])"
    by code_simp
  have "\<not> isBusinessEmail ''john@gmail.com''"
    using created_contact_classified[OF j] by (simp add: personal_contact_def)
  moreover have "isBusinessEmail ''ceo@stripe.com''"
    using created_contact_classified[OF s] by (simp add: business_contact_def)
  ultimately show ?thesis using j s by (simp add: personal_contact_def business_contact_def)
qed

section \<open>The research orchestrator\<close>

text \<open>
  Claim C2 does not hold of the code. When the first status write throws, the error leaves
  \<^verbatim>\<open>researchContactCompany\<close>: no result is returned, no table is touched, and the
  contact keeps the status it had instead of becoming failed.
\<close>

theorem research_first_write_escapes:
  assumes "outages w = True # rest"
  shows "researchContactCompany client w contactId domain
           = (Inl PrismaUnavailable, w\<lparr>outages := rest\<rparr>)
         \<and> status_of (snd (researchContactCompany client w contactId domain)) contactId
           = status_of w contactId"
  using assms
  by (simp add: researchContactCompany_def updateContactResearchStatus_def
      prisma_contact_update_status_def db_call_def status_of_def)

theorem research_first_write_escapes_witness:
  "researchContactCompany mock_client (crm [True]) ''c1'' ''stripe.com''
     = (Inl PrismaUnavailable, crm [])
   \<and> status_of (crm []) ''c1'' = Some R_pending"
proof -
  have h: "outages (crm [True]) = True # []" by (simp add: crm_def)
  have "(crm [True])\<lparr>outages := []\<rparr> = crm []" by (simp add: crm_def)
  moreover have "status_of (crm []) ''c1'' = Some R_pending"
    by (simp add: crm_def status_of_def business_contact_def)
  ultimately show ?thesis
    using research_first_write_escapes[OF h, of mock_client "''c1''" "''stripe.com''"] by simp
qed

text \<open>
  What the \<^verbatim>\<open>catch\<close> block does catch: the cache lookup throws, the contact is marked
  failed and a result comes back. When the write in the \<^verbatim>\<open>catch\<close> block throws as well, its
  error leaves the function and the contact stays in processing.
\<close>

lemma research_lookup_throws_caught:
  "researchContactCompany mock_client (crm [False, True]) ''c1'' ''stripe.com''
     = (Inr \<lparr>rr_success = False, rr_domain = ''stripe.com'', rr_status = R_failed,
             rr_companyResearch = None,
             rr_error = Some ''Research failed: database unavailable''\<rparr>,
        (crm [])\<lparr>contacts := [business_contact\<lparr>researchStatus := R_failed\<rparr>]\<rparr>)"
  by code_simp

lemma research_catch_write_escapes:
  "researchContactCompany mock_client (crm [False, True, True]) ''c1'' ''stripe.com''
     = (Inl PrismaUnavailable,
        (crm [])\<lparr>contacts := [business_contact\<lparr>researchStatus := R_processing\<rparr>]\<rparr>)"
  by code_simp

section \<open>The enrichment cache\<close>





lemma emit_tables [simp]:
  "contacts (emit ev w) = contacts w" "emails (emit ev w) = emails w"
  "companyResearch (emit ev w) = companyResearch w" "outages (emit ev w) = outages w"
  "trace (emit ev w) = trace w @ [ev]"
  by (simp_all add: emit_def)

lemma enrichCompany_fst:
  "fst (enrichCompany client w d) =
     (if \<not> isValidDomain d
      then Failure \<lparr>code = INVALID_DOMAIN, message = ''Invalid domain format: '' @ d\<rparr>
      else if useMock client then getMockData d else callClearbitApi client d)"
  by (simp add: enrichCompany_def Let_def)

lemma enrichCompany_snd:
  "snd (enrichCompany client w d) =
     (if isValidDomain d \<and> \<not> useMock client
      then emit (HttpGet d) (emit (EnrichCompany d) w) else emit (EnrichCompany d) w)"
  by (simp add: enrichCompany_def Let_def)

lemma enrichCompany_tables:
  "contacts (snd (enrichCompany client w d)) = contacts w"
  "emails (snd (enrichCompany client w d)) = emails w"
  "companyResearch (snd (enrichCompany client w d)) = companyResearch w"
  "outages (snd (enrichCompany client w d)) = outages w"
  by (simp_all add: enrichCompany_snd)


text \<open>\<^verbatim>\<open>researchCompany\<close> on a database that answers.\<close>

lemma researchCompany_healthy:
  assumes "outages w = []"
  shows "researchCompany client w domain =
     (case find (\<lambda>r. cd_domain r = trim (toLowerCase domain)) (companyResearch w) of
        Some existing \<Rightarrow>
          (Inr \<lparr>rr_success = True, rr_domain = trim (toLowerCase domain), rr_status = R_complete,
                rr_companyResearch = Some existing, rr_error = None\<rparr>, w)
      | None \<Rightarrow>
          (case fst (enrichCompany client w (trim (toLowerCase domain))) of
             Failure err \<Rightarrow>
               (Inr \<lparr>rr_success = False, rr_domain = trim (toLowerCase domain),
                     rr_status = R_failed, rr_companyResearch = None,
                     rr_error = Some (message err)\<rparr>,
                snd (enrichCompany client w (trim (toLowerCase domain))))
           | Success data \<Rightarrow>
               (Inr \<lparr>rr_success = True, rr_domain = trim (toLowerCase domain),
                     rr_status = R_complete, rr_companyResearch = Some data, rr_error = None\<rparr>,
                (snd (enrichCompany client w (trim (toLowerCase domain))))
                  \<lparr>companyResearch := upsert_row data (companyResearch w)\<rparr>)))"
proof -
  let ?nd = "trim (toLowerCase domain)"
  have o: "outages (snd (enrichCompany client w ?nd)) = []"
    using assms by (simp add: enrichCompany_tables)
  have c: "companyResearch (snd (enrichCompany client w ?nd)) = companyResearch w"
    by (simp add: enrichCompany_tables)
  show ?thesis
    using assms o c
    by (cases "enrichCompany client w ?nd")
       (auto simp: researchCompany_def prisma_companyResearch_findUnique_def db_call_def Let_def
          saveCompanyResearch_def prisma_companyResearch_upsert_def
          split: option.splits EnrichmentResult.splits)
qed

lemma researchCompany_returns:
  assumes "outages w = []"
  shows "\<exists>res w'. researchCompany client w domain = (Inr res, w')
           \<and> outages w' = [] \<and> contacts w' = contacts w \<and> emails w' = emails w
           \<and> rr_domain res = trim (toLowerCase domain)"
  unfolding researchCompany_healthy[OF assms]
  using assms
  by (auto simp: enrichCompany_tables split: option.splits EnrichmentResult.splits)




section \<open>What a match says about the characters\<close>

lemma dead_not_nullable: "dead r \<Longrightarrow> \<not> nullable r"
  by (induction r) auto

lemma dead_deriv: "dead r \<Longrightarrow> dead (deriv c r)"
  by (induction r) (auto simp: dead_not_nullable)

lemma deriv_outside: "c \<notin> chars_of r \<Longrightarrow> dead (deriv c r)"
  by (induction r) auto

lemma chars_deriv: "chars_of (deriv c r) \<subseteq> chars_of r"
  by (induction r) auto

lemma dead_foldl: "dead r \<Longrightarrow> dead (foldl (\<lambda>r c. deriv c r) r s)"
  by (induction s arbitrary: r) (auto simp: dead_deriv)

lemma test_chars: "test r s \<Longrightarrow> set s \<subseteq> chars_of r"
proof (induction s arbitrary: r)
  case Nil
  then show ?case by simp
next
  case (Cons c s)
  from Cons.prems have t: "test (deriv c r) s" by (simp add: test_def)
  have "c \<in> chars_of r"
  proof (rule ccontr)
    assume "c \<notin> chars_of r"
    then have "dead (foldl (\<lambda>r c. deriv c r) (deriv c r) s)"
      by (simp add: deriv_outside dead_foldl)
    then show False using t dead_not_nullable by (auto simp: test_def)
  qed
  moreover have "set s \<subseteq> chars_of r" using Cons.IH[OF t] chars_deriv[of c r] by blast
  ultimately show ?case by simp
qed

lemma dropWhile_none: "(\<forall>c \<in> set s. \<not> P c) \<Longrightarrow> dropWhile P s = s"
  by (cases s) auto

lemma trim_plain: "(\<forall>c \<in> set s. \<not> is_ws c) \<Longrightarrow> trim s = s"
  by (simp add: trim_def dropWhile_none)

lemma toLowerCase_plain: "(\<forall>c \<in> set s. lower_char c = c) \<Longrightarrow> toLowerCase s = s"
  by (simp add: toLowerCase_def map_idI)

lemma domain_chars_plain:
  assumes "c \<in> chars_of domainRegex"
  shows "\<not> is_ws c \<and> lower_char c = c"
proof -
  have "\<forall>c \<in> set (az @ digits @ ''-.''). \<not> is_ws c \<and> lower_char c = c"
    by code_simp
  moreover have "chars_of domainRegex \<subseteq> set (az @ digits @ ''-.'')"
    by (auto simp: domainRegex_def lc_label_def Opt_def Plus_def)
  ultimately show ?thesis using assms by blast
qed

text \<open>An extracted domain is in normal form: lower-casing and trimming do not change it.\<close>

lemma extractDomain_normal:
  assumes "extractDomain e = Some d"
  shows "trim (toLowerCase d) = d"
proof -
  from assms have "test domainRegex d"
    by (auto simp: extractDomain_def Let_def split: if_splits)
  then have "\<forall>c \<in> set d. \<not> is_ws c \<and> lower_char c = c"
    using test_chars[of domainRegex d] domain_chars_plain by blast
  then show ?thesis by (simp add: toLowerCase_plain trim_plain)
qed

section \<open>The research orchestrator on a database that answers\<close>

lemma find_status_update:
  "find (\<lambda>c. c_id c = k)
        (map (\<lambda>c. if c_id c = cid then c\<lparr>researchStatus := st\<rparr> else c) cs)
     = map_option (\<lambda>c. if c_id c = cid then c\<lparr>researchStatus := st\<rparr> else c)
         (find (\<lambda>c. c_id c = k) cs)"
  by (induction cs) auto


lemma ids_status_update_comp:
  "map (c_id \<circ> (\<lambda>c. if c_id c = cid then c\<lparr>researchStatus := st\<rparr> else c)) cs = map c_id cs"
  by (induction cs) auto

lemma find_id_known: "find (\<lambda>c. c_id c = cid) cs \<noteq> None \<longleftrightarrow> cid \<in> set (map c_id cs)"
  by (induction cs) auto

lemma update_status_healthy:
  assumes "outages w = []" and "cid \<in> set (map c_id (contacts w))"
  shows "updateContactResearchStatus w cid st =
           (Inr (), w\<lparr>contacts :=
                       map (\<lambda>c. if c_id c = cid then c\<lparr>researchStatus := st\<rparr> else c)
                           (contacts w)\<rparr>)"
  using assms find_id_known[of cid "contacts w"]
  by (auto simp: updateContactResearchStatus_def prisma_contact_update_status_def db_call_def
      split: option.splits)

lemma status_after_update:
  assumes "cid \<in> set (map c_id cs)"
  shows "status_of (w\<lparr>contacts :=
                       map (\<lambda>c. if c_id c = cid then c\<lparr>researchStatus := st\<rparr> else c) cs\<rparr>) cid
           = Some st"
proof -
  from assms obtain c where c: "find (\<lambda>c. c_id c = cid) cs = Some c"
    using find_id_known[of cid cs] by auto
  then have "c_id c = cid" by (auto simp: find_Some_iff)
  with c show ?thesis by (simp add: status_of_def find_status_update)
qed

text \<open>On a database that answers, for a contact that exists, \<^verbatim>\<open>researchContactCompany\<close>
  returns the result of \<^verbatim>\<open>researchCompany\<close> and leaves the contact complete or failed.\<close>

lemma researchContactCompany_healthy:
  assumes h: "outages w = []" and k: "cid \<in> set (map c_id (contacts w))"
  shows "\<exists>res w'. researchContactCompany client w cid domain = (Inr res, w')
           \<and> fst (researchCompany client
                   (w\<lparr>contacts :=
                        map (\<lambda>c. if c_id c = cid then c\<lparr>researchStatus := R_processing\<rparr> else c)
                            (contacts w)\<rparr>) domain) = Inr res
           \<and> outages w' = [] \<and> map c_id (contacts w') = map c_id (contacts w)
           \<and> rr_domain res = trim (toLowerCase domain)
           \<and> status_of w' cid = Some (if rr_success res then R_complete else R_failed)"
proof -
  let ?w1 = "w\<lparr>contacts :=
                map (\<lambda>c. if c_id c = cid then c\<lparr>researchStatus := R_processing\<rparr> else c)
                    (contacts w)\<rparr>"
  have u1: "updateContactResearchStatus w cid R_processing = (Inr (), ?w1)"
    by (rule update_status_healthy[OF h k])
  have h1: "outages ?w1 = []" using h by simp
  from researchCompany_returns[OF h1, of client domain] obtain res w2 where
    r: "researchCompany client ?w1 domain = (Inr res, w2)" and h2: "outages w2 = []"
    and c2: "contacts w2 = contacts ?w1" and d: "rr_domain res = trim (toLowerCase domain)"
    by blast
  let ?st = "if rr_success res then R_complete else R_failed"
  let ?w3 = "w2\<lparr>contacts :=
                map (\<lambda>c. if c_id c = cid then c\<lparr>researchStatus := ?st\<rparr> else c)
                    (contacts w2)\<rparr>"
  have i2: "map c_id (contacts w2) = map c_id (contacts w)"
    by (simp add: c2 ids_status_update_comp)
  have k2: "cid \<in> set (map c_id (contacts w2))"
    using k unfolding i2 .
  have u2: "updateContactResearchStatus w2 cid ?st = (Inr (), ?w3)"
    by (rule update_status_healthy[OF h2 k2])
  have "researchContactCompany client w cid domain = (Inr res, ?w3)"
    using u1 r u2 by (simp add: researchContactCompany_def research_try_def Let_def)
  moreover have "outages ?w3 = []" using h2 by simp
  moreover have "map c_id (contacts ?w3) = map c_id (contacts w)"
    using i2 by (simp add: ids_status_update_comp)
  moreover have "status_of ?w3 cid = Some ?st" by (rule status_after_update[OF k2])
  ultimately show ?thesis using r d by auto
qed

lemma research_contact_failure:
  assumes h: "outages w = []" and k: "cid \<in> set (map c_id (contacts w))"
    and miss: "find (\<lambda>r. cd_domain r = trim (toLowerCase domain)) (companyResearch w) = None"
    and f: "fst (enrichCompany client w (trim (toLowerCase domain))) = Failure err"
  shows "fst (researchContactCompany client w cid domain)
           = Inr \<lparr>rr_success = False, rr_domain = trim (toLowerCase domain), rr_status = R_failed,
                  rr_companyResearch = None, rr_error = Some (message err)\<rparr>
         \<and> status_of (snd (researchContactCompany client w cid domain)) cid = Some R_failed"
proof -
  let ?w1 = "w\<lparr>contacts :=
                map (\<lambda>c. if c_id c = cid then c\<lparr>researchStatus := R_processing\<rparr> else c)
                    (contacts w)\<rparr>"
  from researchContactCompany_healthy[OF h k, of client domain] obtain res w' where
    r: "researchContactCompany client w cid domain = (Inr res, w')"
    and c: "fst (researchCompany client ?w1 domain) = Inr res"
    and s: "status_of w' cid = Some (if rr_success res then R_complete else R_failed)"
    by blast
  have h1: "outages ?w1 = []" using h by simp
  have f1: "fst (enrichCompany client ?w1 (trim (toLowerCase domain))) = Failure err"
    using f by (simp add: enrichCompany_fst)
  have "res = \<lparr>rr_success = False, rr_domain = trim (toLowerCase domain), rr_status = R_failed,
                  rr_companyResearch = None, rr_error = Some (message err)\<rparr>"
    using c miss f1 by (simp add: researchCompany_healthy[OF h1])
  then show ?thesis using r s by simp
qed

lemma createContact_healthy:
  assumes "createContact w newId userId input = (Inr cr, w1)" and "outages w = []"
  shows "outages w1 = [] \<and> companyResearch w1 = companyResearch w
         \<and> contacts w1 = contacts w @ [cr_contact cr] \<and> c_id (cr_contact cr) = newId
         \<and> (\<forall>cid d. spawned cr = Some (cid, d) \<longrightarrow> cid = newId \<and> trim (toLowerCase d) = d)"
proof -
  have a: "outages w1 = [] \<and> companyResearch w1 = companyResearch w"
    using assms
    by (auto simp: createContact_def prisma_contact_findUnique_def prisma_contact_create_def
        db_call_def Let_def split: option.splits prod.splits sum.splits if_splits)
  from createContact_stored[OF assms(1)] obtain n where
    n: "c_id (cr_contact cr) = newId"
       "spawned cr = (case extractDomain n of None \<Rightarrow> None
                      | Some d \<Rightarrow> if isBusinessEmail n \<and> d \<noteq> [] then Some (newId, d) else None)"
       "contacts w1 = contacts (snd (db_call (snd (db_call w)))) @ [cr_contact cr]"
    by blast
  have b: "contacts w1 = contacts w @ [cr_contact cr]"
    using n(3) assms(2) by (simp add: db_call_def)
  have c: "cid = newId \<and> trim (toLowerCase d) = d" if "spawned cr = Some (cid, d)" for cid d
    using that n(2) extractDomain_normal[of n d]
    by (auto split: option.splits if_splits)
  show ?thesis using a b c n(1) by blast
qed

text \<open>A contact whose enrichment fails ends failed once the spawned research has run.\<close>

lemma auto_research_failure:
  assumes cr: "createContact w newId userId input = (Inr cr, w1)" and h: "outages w = []"
    and sp: "spawned cr = Some (cid, d)"
    and miss: "find (\<lambda>r. cd_domain r = d) (companyResearch w) = None"
    and f: "fst (enrichCompany client w d) = Failure err"
  shows "status_of (auto_research client w1 (spawned cr)) (c_id (cr_contact cr)) = Some R_failed"
proof -
  from createContact_healthy[OF cr h] sp have
    h1: "outages w1 = []" and r1: "companyResearch w1 = companyResearch w"
    and c1: "contacts w1 = contacts w @ [cr_contact cr]" and i: "c_id (cr_contact cr) = newId"
    and n: "cid = newId" "trim (toLowerCase d) = d"
    by blast+
  have k: "cid \<in> set (map c_id (contacts w1))" using c1 i n(1) by simp
  have m1: "find (\<lambda>r. cd_domain r = trim (toLowerCase d)) (companyResearch w1) = None"
    using miss by (simp add: r1 n(2))
  have f1: "fst (enrichCompany client w1 (trim (toLowerCase d))) = Failure err"
    using f by (simp add: enrichCompany_fst n(2))
  from research_contact_failure[OF h1 k m1 f1]
  show ?thesis by (simp add: auto_research_def sp i n(1))
qed

section \<open>Domains the enrichment client turns down\<close>

text \<open>
  Claim C9, as the code has it. In mock mode, for a domain whose lower-cased form contains
  \<^verbatim>\<open>unknown-domain.com\<close>, \<^verbatim>\<open>fake-company.xyz\<close> or \<^verbatim>\<open>test123.net\<close>, \<^verbatim>\<open>enrichCompany\<close>
  answers NOT_FOUND instead of a synthetic profile when the domain passes the client's
  format check, and INVALID_DOMAIN when it does not: the format check comes first. Either
  way a contact created with such a domain, when no persistence call throws and no row is
  stored for the domain, is failed once its research has run.
\<close>

theorem mock_unknown_domain:
  assumes "useMock client" and "mock_unknown domain"
  shows "fst (enrichCompany client w domain)
           = (if isValidDomain domain
              then Failure \<lparr>code = NOT_FOUND,
                            message = ''[MOCK] No company data found for domain: '' @ domain\<rparr>
              else Failure \<lparr>code = INVALID_DOMAIN,
                            message = ''Invalid domain format: '' @ domain\<rparr>)
       \<and> (createContact w newId userId input = (Inr cr, w1) \<and> outages w = []
            \<and> spawned cr = Some (cid, domain)
            \<and> find (\<lambda>r. cd_domain r = domain) (companyResearch w) = None
          \<longrightarrow> status_of (auto_research client w1 (spawned cr)) (c_id (cr_contact cr))
                = Some R_failed)"
proof -
  have nf: "getMockData domain
              = Failure \<lparr>code = NOT_FOUND,
                         message = ''[MOCK] No company data found for domain: '' @ domain\<rparr>"
    using assms(2) by (simp add: getMockData_def mock_unknown_def)
  have 1: "fst (enrichCompany client w domain)
           = (if isValidDomain domain
              then Failure \<lparr>code = NOT_FOUND,
                            message = ''[MOCK] No company data found for domain: '' @ domain\<rparr>
              else Failure \<lparr>code = INVALID_DOMAIN,
                            message = ''Invalid domain format: '' @ domain\<rparr>)"
    using assms(1) nf by (simp add: enrichCompany_fst)
  then obtain err where f: "fst (enrichCompany client w domain) = Failure err"
    by (cases "isValidDomain domain") auto
  have 2: "status_of (auto_research client w1 (spawned cr)) (c_id (cr_contact cr)) = Some R_failed"
    if "createContact w newId userId input = (Inr cr, w1)" "outages w = []"
       "spawned cr = Some (cid, domain)"
       "find (\<lambda>r. cd_domain r = domain) (companyResearch w) = None"
    using auto_research_failure[OF that f] .
  show ?thesis using 1 2 by blast
qed

theorem mock_unknown_domain_witness:
  "fst (enrichCompany mock_client empty_world ''unknown-domain.com'')
     = Failure \<lparr>code = NOT_FOUND,
                message = ''[MOCK] No company data found for domain: unknown-domain.com''\<rparr>
   \<and> createContact empty_world ''c9'' ''u1'' (input_of ''info@unknown-domain.com'')
       = (Inr (fresh_created ''c9'' ''info@unknown-domain.com'' ''unknown-domain.com''),
          empty_world\<lparr>contacts :=
            [fresh_contact ''c9'' ''info@unknown-domain.com'' ''unknown-domain.com'']\<rparr>)
   \<and> status_of (auto_research mock_client
                   (empty_world\<lparr>contacts :=
                      [fresh_contact ''c9'' ''info@unknown-domain.com'' ''unknown-domain.com'']\<rparr>)
                   (Some (''c9'', ''unknown-domain.com''))) ''c9'' = Some R_failed"
proof -
  have m: "useMock mock_client" by (simp add: mock_client_def)
  have u: "mock_unknown ''unknown-domain.com''" by code_simp
  have v: "isValidDomain ''unknown-domain.com''" by code_simp
  have c: "createContact empty_world ''c9'' ''u1'' (input_of ''info@unknown-domain.com'')
       = (Inr (fresh_created ''c9'' ''info@unknown-domain.com'' ''unknown-domain.com''),
          empty_world\<lparr>contacts :=
            [fresh_contact ''c9'' ''info@unknown-domain.com'' ''unknown-domain.com'']\<rparr>)"
    by code_simp
  have h: "outages empty_world = []"
    "find (\<lambda>r. cd_domain r = ''unknown-domain.com'') (companyResearch empty_world) = None"
    by (simp_all add: empty_world_def)
  have s: "spawned (fresh_created ''c9'' ''info@unknown-domain.com'' ''unknown-domain.com'')
             = Some (''c9'', ''unknown-domain.com'')"
    "c_id (cr_contact (fresh_created ''c9'' ''info@unknown-domain.com'' ''unknown-domain.com''))
             = ''c9''"
    by (simp_all add: fresh_created_def fresh_contact_def)
  from mock_unknown_domain[OF m u, where w = empty_world and newId = "''c9''"
      and userId = "''u1''" and input = "input_of ''info@unknown-domain.com''"
      and cr = "fresh_created ''c9'' ''info@unknown-domain.com'' ''unknown-domain.com''"
      and ?w1.0 = "empty_world\<lparr>contacts :=
            [fresh_contact ''c9'' ''info@unknown-domain.com'' ''unknown-domain.com'']\<rparr>"
      and cid = "''c9''"]
  show ?thesis using v c h s by simp
qed

text \<open>
  A domain the classifier accepts and the mock lists, which the client's format check
  turns down: the answer is INVALID_DOMAIN, not NOT_FOUND. And a contact with a domain the
  mock lists, for which a row is stored: the research is served from the store and the
  contact ends complete.
\<close>

theorem mock_unknown_domain_counterexample:
  "extractDomain ''info@test123.net.c0'' = Some ''test123.net.c0''
   \<and> isBusinessEmail ''info@test123.net.c0''
   \<and> mock_unknown ''test123.net.c0''
   \<and> fst (enrichCompany mock_client empty_world ''test123.net.c0'')
       = Failure \<lparr>code = INVALID_DOMAIN,
                  message = ''Invalid domain format: test123.net.c0''\<rparr>
   \<and> mock_unknown ''unknown-domain.com''
   \<and> status_of (auto_research mock_client
                   (empty_world\<lparr>contacts :=
                      [fresh_contact ''c9'' ''info@unknown-domain.com'' ''unknown-domain.com''],
                      companyResearch := [profile\<lparr>cd_domain := ''unknown-domain.com''\<rparr>]\<rparr>)
                   (Some (''c9'', ''unknown-domain.com''))) ''c9'' = Some R_complete"
  by code_simp



section \<open>The windows of a list\<close>

declare windows.simps [simp del]

lemma windows_Nil [simp]: "windows n [] = []"
  by (simp add: windows.simps)

lemma windows_step: "0 < n \<Longrightarrow> xs \<noteq> [] \<Longrightarrow> windows n xs = take n xs # windows n (drop n xs)"
  by (subst windows.simps) simp


lemma windows_empty_iff: "0 < n \<Longrightarrow> windows n xs = [] \<longleftrightarrow> xs = []"
  by (cases "xs = []") (simp_all add: windows_step)


lemma slice_window:
  assumes "0 \<le> i" and "i < int (length cs)" and "0 < c"
  shows "slice cs i (i + c) = take (nat c) (drop (nat i) cs)"
proof -
  have "nat (min (i + c) (int (length cs)) - i) = min (nat c) (length cs - nat i)"
    using assms by (simp add: min_def) linarith
  then show ?thesis using assms by (simp add: slice_def Let_def min_def)
qed


section \<open>The calls of a window\<close>

text \<open>A call that takes its actions alone is \<^verbatim>\<open>researchContactCompany\<close> run to its end.\<close>

lemma steps_researchContactCompany:
  "steps client 6 w (contactId, domain) Start =
     (case researchContactCompany client w contactId domain of (r, w') \<Rightarrow> (Done r, w'))"
  by (simp add: eval_nat_numeral researchContactCompany_def research_try_def researchCompany_def
      Let_def split: prod.splits sum.splits option.splits EnrichmentResult.splits)

















text \<open>No action of a call sets a timer; the loop sets one between two windows.\<close>

lemma db_call_trace: "trace (snd (db_call w)) = trace w"
  by (simp add: db_call_def split: list.splits)











section \<open>The loop over the windows\<close>


text \<open>With a positive limit the loop runs the windows of the rest of the list.\<close>

lemma batch_loop_windows:
  assumes "0 < c" and "0 \<le> i"
  shows "batch_loop client cs c i results sched w =
           Some (case run_windows client sched w (windows (nat c) (drop (nat i) cs)) of
                   (Inl e, w') \<Rightarrow> (Inl e, w')
                 | (Inr rs, w') \<Rightarrow> (Inr (results @ rs), w'))"
  using assms(2)
proof (induction "length cs - nat i" arbitrary: i results w sched rule: less_induct)
  case less
  show ?case
  proof (cases "i < int (length cs)")
    case False
    then have "drop (nat i) cs = []" using less.prems by simp
    then show ?thesis using False by (subst batch_loop.simps) simp
  next
    case True
    let ?b = "take (nat c) (drop (nat i) cs)"
    have ne: "drop (nat i) cs \<noteq> []" using True less.prems by simp
    have d: "drop (nat c) (drop (nat i) cs) = drop (nat (i + c)) cs"
      using assms(1) less.prems by (simp add: nat_add_distrib add.commute)
    have win: "windows (nat c) (drop (nat i) cs) = ?b # windows (nat c) (drop (nat (i + c)) cs)"
      using windows_step[OF _ ne, of "nat c"] assms(1) d by simp
    have sl: "slice cs i (i + c) = ?b" by (rule slice_window[OF less.prems True assms(1)])
    obtain r w1 rest where p: "promise_all client sched w ?b = (r, w1, rest)"
      by (cases "promise_all client sched w ?b") auto
    show ?thesis
    proof (cases r)
      case (Inl e)
      then show ?thesis using True p sl win by (subst batch_loop.simps) simp
    next
      case (Inr rs)
      let ?w2 = "if i + c < int (length cs) then emit (SetTimeout 1000) w1 else w1"
      have m: "length cs - nat (i + c) < length cs - nat i"
        using True assms(1) less.prems by linarith
      have ih: "batch_loop client cs c (i + c) (results @ rs) rest ?w2 =
                 Some (case run_windows client rest ?w2 (windows (nat c) (drop (nat (i + c)) cs)) of
                         (Inl e, w') \<Rightarrow> (Inl e, w')
                       | (Inr rs', w') \<Rightarrow> (Inr ((results @ rs) @ rs'), w'))"
        using less.hyps[OF m, of "results @ rs" rest ?w2] assms(1) less.prems by simp
      have e: "(windows (nat c) (drop (nat (i + c)) cs) = []) = (\<not> i + c < int (length cs))"
        using assms(1) less.prems by (simp add: windows_empty_iff) linarith
      have "batch_loop client cs c i results sched w
              = batch_loop client cs c (i + c) (results @ rs) rest ?w2"
        using True p sl Inr by (subst batch_loop.simps) simp
      also have "\<dots> = Some (case run_windows client sched w (windows (nat c) (drop (nat i) cs)) of
                   (Inl e, w') \<Rightarrow> (Inl e, w')
                 | (Inr rs, w') \<Rightarrow> (Inr (results @ rs), w'))"
        unfolding ih win using p Inr e
        by (auto split: prod.splits sum.splits)
      finally show ?thesis .
    qed
  qed
qed


section \<open>A window of one call\<close>

lemma steps_Done: "steps client n w entry (Done r) = (Done r, w)"
  by (induction n) simp_all

lemma rounds_rejected:
  "list_ex (\<lambda>c. rejected (snd c)) calls \<Longrightarrow> rounds client n w calls = (calls, w)"
  by (cases n) simp_all

lemma rounds_single:
  "rounds client n w [(entry, p)] =
     (case steps client n w entry p of (p', w') \<Rightarrow> ([(entry, p')], w'))"
proof (induction n arbitrary: w p)
  case 0
  then show ?case by simp
next
  case (Suc n)
  show ?case
  proof (cases "pending p")
    case False
    then obtain r where p: "p = Done r" by (cases p) simp_all
    show ?thesis
    proof (cases "rejected p")
      case True
      then show ?thesis using p by (simp add: steps_Done)
    next
      case False
      then show ?thesis using p Suc.IH[of w p] by (simp add: steps_Done)
    qed
  next
    case True
    then have nr: "\<not> rejected p" by (cases p) simp_all
    obtain p' w1 where st: "step_call client w entry p = (p', w1)"
      by (cases "step_call client w entry p") blast
    show ?thesis
    proof (cases "rejected p'")
      case r: True
      then obtain e where "p' = Done (Inl e)" by (cases p' rule: rejected.cases) simp_all
      then show ?thesis using True nr st r by (simp add: rounds_rejected steps_Done)
    next
      case False
      then show ?thesis using True nr st Suc.IH[of w1 p'] by simp
    qed
  qed
qed

text \<open>A window of one entry is \<^verbatim>\<open>researchContactCompany\<close> for that entry.\<close>

lemma promise_all_single:
  "promise_all client [] w [(contactId, domain)] =
     (case researchContactCompany client w contactId domain of
        (Inl e, w') \<Rightarrow> (Inl e, w', [])
      | (Inr r, w') \<Rightarrow> (Inr [r], w', []))"
proof -
  obtain r w' where c: "researchContactCompany client w contactId domain = (r, w')"
    by (cases "researchContactCompany client w contactId domain") blast
  have "rounds client 6 w [((contactId, domain), Start)] = ([((contactId, domain), Done r)], w')"
    unfolding rounds_single steps_researchContactCompany c by simp
  then show ?thesis using c by (cases r) (simp_all add: promise_all_def)
qed

section \<open>A contact that is not stored\<close>









section \<open>A window that is not rejected\<close>










section \<open>The batch\<close>




section \<open>Other runs of a batch\<close>

text \<open>
  The results of a batch do not depend on the order in which the calls of a window take
  their actions; the requests to the provider do. When the first call of the window runs
  to its end before the others look up the store, the third entry is served from the
  store and \<^verbatim>\<open>stripe.com\<close> is requested once.
\<close>

lemma batch_first_call_first:
  "batchResearchContacts client_mixed [0, 0, 0, 0, 0] (crm []) four_entries 3
     = Some (Inr [stripe_result, acme_failure, stripe_result, acme_failure],
             after_batch\<lparr>trace := [EnrichCompany ''stripe.com'', HttpGet ''stripe.com'',
                                  EnrichCompany ''acme.io'', HttpGet ''acme.io'',
                                  SetTimeout 1000,
                                  EnrichCompany ''acme.io'', HttpGet ''acme.io'']\<rparr>)"
proof -
  have "run_windows client_mixed [0, 0, 0, 0, 0] (crm []) (windows 3 four_entries)
     = (Inr [stripe_result, acme_failure, stripe_result, acme_failure],
             after_batch\<lparr>trace := [EnrichCompany ''stripe.com'', HttpGet ''stripe.com'',
                                  EnrichCompany ''acme.io'', HttpGet ''acme.io'',
                                  SetTimeout 1000,
                                  EnrichCompany ''acme.io'', HttpGet ''acme.io'']\<rparr>)"
    by code_simp
  then show ?thesis
    using batch_loop_windows[of 3 0 client_mixed four_entries "[]" "[0, 0, 0, 0, 0]" "crm []"]
    by (simp add: batchResearchContacts_def)
qed

text \<open>A status write that the database turns down rejects the batch as well.\<close>

lemma batch_rejected_by_outage:
  "batchResearchContacts client_ok [] (crm [True]) [(''c1'', ''stripe.com'')] 3
     = Some (Inl PrismaUnavailable, crm [])"
proof -
  have "run_windows client_ok [] (crm [True]) (windows 3 [(''c1'', ''stripe.com'')])
        = (Inl PrismaUnavailable, crm [])"
    by code_simp
  then show ?thesis
    using batch_loop_windows[of 3 0 client_ok "[(''c1'', ''stripe.com'')]" "[]" "[]" "crm [True]"]
    by (simp add: batchResearchContacts_def)
qed

end
